theory Spec2Isabelle
  imports Complex_Main
begin

section \<open>Data model\<close>

text \<open>
  The pipeline transforms a pandas data frame of sent messages. A float column is a list of
  optional reals: \<open>None\<close> is pandas' NaN (null), boolean outcome flags are the numbers 0 and 1
  (as pandas treats them in sums and means). Finite floats are idealised as reals, so rounding
  is not modelled. Timestamps are integers counting seconds.

  The frame record fixes the two columns every stage reads without a check (\<open>client_id\<close>
  and \<open>sent_at\<close>, never null after \<open>prepare_data\<close>), the three categorical columns the
  code compares with string constants (each may be absent), and a dictionary of all remaining
  columns by name (\<open>message_id\<close>, \<open>campaign_id\<close>, outcome flags, features).
\<close>

type_synonym fcol = "real option list"

datatype error = KeyError string | ValueError string

record frame =
  client_id :: "nat list"
  sent_at :: "int list"
  channel_x :: "string list option"
  campaign_type :: "string list option"
  message_type :: "string list option"
  num :: "string \<Rightarrow> fcol option"

definition nrows :: "frame \<Rightarrow> nat" where
  "nrows df = length (sent_at df)"

text \<open>\<open>c in df.columns\<close>.\<close>

definition has_col :: "frame \<Rightarrow> string \<Rightarrow> bool" where
  "has_col df c =
     (c = ''client_id'' \<or> c = ''sent_at''
      \<or> (c = ''channel_x'' \<and> channel_x df \<noteq> None)
      \<or> (c = ''campaign_type'' \<and> campaign_type df \<noteq> None)
      \<or> (c = ''message_type'' \<and> message_type df \<noteq> None)
      \<or> (c \<noteq> ''client_id'' \<and> c \<noteq> ''sent_at'' \<and> c \<noteq> ''channel_x''
          \<and> c \<noteq> ''campaign_type'' \<and> c \<noteq> ''message_type'' \<and> num df c \<noteq> None))"

text \<open>\<open>df[c] = values\<close> for a float column.\<close>

definition assign :: "frame \<Rightarrow> string \<Rightarrow> fcol \<Rightarrow> frame" where
  "assign df c vs = df\<lparr>num := (num df)(c := Some vs)\<rparr>"

text \<open>\<open>df[c].iloc[i]\<close>: \<open>None\<close> when the column is missing, \<open>Some None\<close> for a null cell.\<close>

definition cell :: "frame \<Rightarrow> string \<Rightarrow> nat \<Rightarrow> real option option" where
  "cell df c i = map_option (\<lambda>col. col ! i) (num df c)"

text \<open>A frame is well formed when every column has one cell per row.\<close>

definition len_ok :: "nat \<Rightarrow> 'a list option \<Rightarrow> bool" where
  "len_ok n col = (case col of None \<Rightarrow> True | Some xs \<Rightarrow> length xs = n)"

definition wf_frame :: "frame \<Rightarrow> bool" where
  "wf_frame df =
     (length (client_id df) = nrows df \<and> len_ok (nrows df) (channel_x df)
      \<and> len_ok (nrows df) (campaign_type df) \<and> len_ok (nrows df) (message_type df)
      \<and> (\<forall>c. len_ok (nrows df) (num df c)))"

section \<open>The pandas operations the code calls\<close>

subsection \<open>Null-aware arithmetic and aggregation\<close>

primrec somes :: "'a option list \<Rightarrow> 'a list" where
  "somes [] = []"
| "somes (v # vs) = (case v of None \<Rightarrow> somes vs | Some x \<Rightarrow> x # somes vs)"

text \<open>
  \<open>Series.mean()\<close>, and the mean of a rolling or expanding window with its default
  \<open>min_periods = 1\<close>: the mean of the non-null cells, null when there is none.
\<close>

definition nanmean :: "fcol \<Rightarrow> real option" where
  "nanmean vs =
     (if somes vs = [] then None else Some (sum_list (somes vs) / real (length (somes vs))))"

text \<open>Elementwise \<open>a - b\<close> on float cells: null when either side is null.\<close>

definition nan_sub :: "real option \<Rightarrow> real option \<Rightarrow> real option" where
  "nan_sub a b = (case a of None \<Rightarrow> None | Some x \<Rightarrow> (case b of None \<Rightarrow> None | Some y \<Rightarrow> Some (x - y)))"

definition col_sub :: "fcol \<Rightarrow> fcol \<Rightarrow> fcol" where
  "col_sub xs ys = map2 nan_sub xs ys"

text \<open>\<open>fillna(0)\<close>.\<close>

definition fillna0 :: "real option \<Rightarrow> real" where
  "fillna0 v = (case v of None \<Rightarrow> 0 | Some x \<Rightarrow> x)"

text \<open>\<open>shift(1)\<close> on one series: every cell moves one row down, the first becomes null.\<close>

definition shift1 :: "'a option list \<Rightarrow> 'a option list" where
  "shift1 vs = (case vs of [] \<Rightarrow> [] | v # rest \<Rightarrow> None # butlast vs)"

text \<open>\<open>cumsum()\<close>: the running total skips null cells and leaves them null.\<close>

primrec cumsum_from :: "real \<Rightarrow> fcol \<Rightarrow> fcol" where
  "cumsum_from acc [] = []"
| "cumsum_from acc (v # vs) =
     (case v of None \<Rightarrow> None # cumsum_from acc vs
      | Some x \<Rightarrow> Some (acc + x) # cumsum_from (acc + x) vs)"

definition cumsum :: "fcol \<Rightarrow> fcol" where
  "cumsum vs = cumsum_from 0 vs"

text \<open>\<open>expanding().mean()\<close>: at every row the mean of the cells up to and including it.\<close>

definition expanding_mean :: "fcol \<Rightarrow> fcol" where
  "expanding_mean vs = map (\<lambda>n. nanmean (take (Suc n) vs)) [0..<length vs]"

subsection \<open>Grouping\<close>

text \<open>
  Rows of one group keep the frame's row order. \<open>group_rows ks i\<close> are the positions of the
  group of row \<open>i\<close>, \<open>prior_rows ks i\<close> those before row \<open>i\<close>.
\<close>

definition group_rows :: "'k list \<Rightarrow> nat \<Rightarrow> nat list" where
  "group_rows ks i = filter (\<lambda>j. ks ! j = ks ! i) [0..<length ks]"

definition prior_rows :: "'k list \<Rightarrow> nat \<Rightarrow> nat list" where
  "prior_rows ks i = filter (\<lambda>j. ks ! j = ks ! i) [0..<i]"

text \<open>
  \<open>df.groupby(key)[col].transform(f)\<close>, \<open>groupby(key)[col].shift(1)\<close> and the explicit loop
  over \<open>groupby(key).groups\<close> that writes back with \<open>df.loc[group_indices, col]\<close>: \<open>f\<close> runs
  on the cells of each group and every row receives the result at its position in its group.
\<close>

definition groupby_apply :: "('a list \<Rightarrow> 'b list) \<Rightarrow> 'k list \<Rightarrow> 'a list \<Rightarrow> 'b list" where
  "groupby_apply f ks vs =
     map (\<lambda>i. f (map (\<lambda>j. vs ! j) (group_rows ks i)) ! length (prior_rows ks i)) [0..<length ks]"

text \<open>
  With a key column that can be null, pandas drops the rows whose key is null from every
  group: a transform leaves their cells null.
\<close>

definition groupby_transform :: "(fcol \<Rightarrow> fcol) \<Rightarrow> 'k option list \<Rightarrow> fcol \<Rightarrow> fcol" where
  "groupby_transform f ks vs =
     map2 (\<lambda>k r. case k of None \<Rightarrow> None | Some _ \<Rightarrow> r) ks (groupby_apply f ks vs)"

subsection \<open>Time-based rolling windows\<close>

text \<open>
  \<open>rolling(window, closed='left')\<close> on a time index: the window of row \<open>i\<close> holds the rows
  of its group that stand before it and whose timestamp is at least \<open>t i - window\<close>. pandas
  refuses an index that is not sorted within a group (ValueError).
\<close>

definition window_rows :: "'k list \<Rightarrow> int list \<Rightarrow> int \<Rightarrow> nat \<Rightarrow> nat list" where
  "window_rows ks ts w i = filter (\<lambda>j. ts ! i - w \<le> ts ! j) (prior_rows ks i)"

definition monotonic_groups :: "'k list \<Rightarrow> int list \<Rightarrow> bool" where
  "monotonic_groups ks ts =
     list_all (\<lambda>i. list_all (\<lambda>j. ts ! j \<le> ts ! i) (prior_rows ks i)) [0..<length ks]"

text \<open>
  The result of \<open>groupby(key)[col].rolling(...)\<close> is ordered by group (keys ascending, rows of
  a group in frame order), not by the frame's rows.
\<close>

definition groupby_order :: "nat list \<Rightarrow> nat list" where
  "groupby_order ks = sort_key (\<lambda>i. ks ! i) [0..<length ks]"

definition groupby_rolling_mean :: "nat list \<Rightarrow> int list \<Rightarrow> int \<Rightarrow> fcol \<Rightarrow> error + fcol" where
  "groupby_rolling_mean ks ts w vs =
     (if monotonic_groups ks ts
      then Inr (map (\<lambda>i. nanmean (map (\<lambda>j. vs ! j) (window_rows ks ts w i))) (groupby_order ks))
      else Inl (ValueError ''Each group within sent_at must be monotonic''))"

definition days :: "int \<Rightarrow> int" where
  "days n = n * 86400"

section \<open>Engagement features (engagement_features.py)\<close>

definition bayesian_shrinkage :: "real \<Rightarrow> real \<Rightarrow> real option \<Rightarrow> real \<Rightarrow> real \<Rightarrow> real option" where
  "bayesian_shrinkage successes trials global_mean alpha beta =
     (case global_mean of None \<Rightarrow> None
      | Some g \<Rightarrow>
          if trials + alpha + beta = 0 then None
          else Some ((successes + alpha * g) / (trials + alpha + beta)))"

definition engagement_metrics :: "string list" where
  "engagement_metrics = [''is_opened'', ''is_clicked'', ''is_purchased'']"

definition available_metrics :: "frame \<Rightarrow> string list" where
  "available_metrics df = filter (has_col df) engagement_metrics"

subsection \<open>create_lagged_engagement_features\<close>

definition lag_column :: "frame \<Rightarrow> string \<Rightarrow> frame" where
  "lag_column df c =
     (if has_col df c
      then (case num df c of None \<Rightarrow> df
            | Some vs \<Rightarrow> assign df (c @ ''_prev'') (groupby_apply shift1 (client_id df) vs))
      else df)"

definition create_lagged_engagement_features :: "frame \<Rightarrow> frame" where
  "create_lagged_engagement_features df =
     foldl lag_column (foldl lag_column df engagement_metrics)
       [''time_to_open_hours'', ''time_to_click_hours'']"

subsection \<open>create_rolling_engagement_rates\<close>

text \<open>
  The rolling result is written with \<open>.values\<close>, that is by position. An exception inside
  the \<open>try\<close> block leaves the column null.
\<close>

definition rolling_rate_values :: "frame \<Rightarrow> string \<Rightarrow> int \<Rightarrow> fcol" where
  "rolling_rate_values df_indexed metric w =
     (case num df_indexed (metric @ ''_prev'') of
        None \<Rightarrow> replicate (nrows df_indexed) None
      | Some prev \<Rightarrow>
          (case groupby_rolling_mean (client_id df_indexed) (sent_at df_indexed) w prev of
             Inl e \<Rightarrow> replicate (nrows df_indexed) None
           | Inr vals \<Rightarrow> vals))"

definition rolling_rate :: "frame \<Rightarrow> frame \<Rightarrow> string \<Rightarrow> string \<times> int \<Rightarrow> frame" where
  "rolling_rate df_indexed df metric pd =
     assign df (metric @ ''_rate_'' @ fst pd) (rolling_rate_values df_indexed metric (snd pd))"

definition rolling_rates_metric :: "frame \<Rightarrow> frame \<Rightarrow> string \<Rightarrow> frame" where
  "rolling_rates_metric df_indexed df metric =
     (if has_col df (metric @ ''_prev'')
      then foldl (\<lambda>d pd. rolling_rate df_indexed d metric pd) df [(''1w'', days 7), (''1m'', days 30)]
      else df)"

definition create_rolling_engagement_rates :: "frame \<Rightarrow> frame" where
  "create_rolling_engagement_rates df =
     (if available_metrics df = [] then df
      else foldl (rolling_rates_metric df) df (available_metrics df))"

subsection \<open>create_bayesian_smoothed_rates\<close>

text \<open>
  One group of the inner loop: \<open>cumsum().shift(1).fillna(0)\<close> are the successes,
  \<open>np.arange(len(group))\<close> the trials.
\<close>

definition smoothed_group :: "real option \<Rightarrow> real \<Rightarrow> real \<Rightarrow> fcol \<Rightarrow> fcol" where
  "smoothed_group global_mean alpha beta grp =
     map2 (\<lambda>s n. bayesian_shrinkage s (real n) global_mean alpha beta)
       (map fillna0 (shift1 (cumsum grp))) [0..<length grp]"

definition smoothed_metric :: "real \<Rightarrow> real \<Rightarrow> frame \<Rightarrow> string \<Rightarrow> frame" where
  "smoothed_metric alpha beta df metric =
     (case num df metric of None \<Rightarrow> df
      | Some vs \<Rightarrow>
          assign df (metric @ ''_rate_prev_smooth'')
            (groupby_apply (smoothed_group (nanmean vs) alpha beta) (client_id df) vs))"

definition create_bayesian_smoothed_rates :: "real \<Rightarrow> real \<Rightarrow> frame \<Rightarrow> frame" where
  "create_bayesian_smoothed_rates alpha beta df =
     (if available_metrics df = [] then df
      else foldl (smoothed_metric alpha beta) df (available_metrics df))"

subsection \<open>create_campaign_quality_features\<close>

definition shift_expanding_mean :: "fcol \<Rightarrow> fcol" where
  "shift_expanding_mean x = expanding_mean (shift1 x)"

definition campaign_quality_metric :: "frame \<Rightarrow> string \<Rightarrow> frame" where
  "campaign_quality_metric df metric =
     (case num df metric of None \<Rightarrow> df
      | Some vs \<Rightarrow>
          (case num df ''campaign_id'' of None \<Rightarrow> df
           | Some camp \<Rightarrow>
               assign
                 (assign df (metric @ ''_rate_campaign_per_client'')
                    (groupby_transform shift_expanding_mean
                       (map2 (\<lambda>c p. map_option (Pair c) p) (client_id df) camp) vs))
                 (metric @ ''_rate_campaign'')
                 (groupby_transform shift_expanding_mean camp vs)))"

definition create_campaign_quality_features :: "frame \<Rightarrow> frame" where
  "create_campaign_quality_features df =
     (if has_col df ''campaign_id''
      then (if available_metrics df = [] then df
            else foldl campaign_quality_metric df (available_metrics df))
      else df)"

subsection \<open>create_expectation_gap_features\<close>

definition gap_period :: "string \<Rightarrow> frame \<Rightarrow> string \<Rightarrow> frame" where
  "gap_period metric df period =
     (if has_col df (metric @ ''_rate_'' @ period)
      then (case num df (metric @ ''_rate_'' @ period) of None \<Rightarrow> df
            | Some rate \<Rightarrow>
                (case num df (metric @ ''_rate_prev_smooth'') of None \<Rightarrow> df
                 | Some smooth \<Rightarrow> assign df (metric @ ''_expect_gap_'' @ period) (col_sub rate smooth)))
      else df)"

definition group_mean :: "fcol \<Rightarrow> fcol" where
  "group_mean grp = replicate (length grp) (nanmean grp)"

definition expectation_gap_metric :: "frame \<Rightarrow> string \<Rightarrow> frame" where
  "expectation_gap_metric df metric =
     (if has_col df (metric @ ''_rate_prev_smooth'')
      then (let df1 = foldl (gap_period metric) df [''1w'', ''1m'']
            in (case num df1 metric of None \<Rightarrow> df1
                | Some vs \<Rightarrow>
                    (case num df1 (metric @ ''_rate_prev_smooth'') of None \<Rightarrow> df1
                     | Some smooth \<Rightarrow>
                         assign df1 (metric @ ''_expect_gap_overall'')
                           (col_sub (groupby_apply group_mean (client_id df1) vs) smooth))))
      else df)"

definition create_expectation_gap_features :: "frame \<Rightarrow> frame" where
  "create_expectation_gap_features df =
     (if available_metrics df = [] then df
      else foldl expectation_gap_metric df (available_metrics df))"

subsection \<open>create_engagement_features\<close>

definition create_engagement_features :: "real \<Rightarrow> real \<Rightarrow> frame \<Rightarrow> frame" where
  "create_engagement_features bayesian_alpha bayesian_beta df =
     (if available_metrics df = [] then df
      else create_expectation_gap_features
             (create_campaign_quality_features
                (create_bayesian_smoothed_rates bayesian_alpha bayesian_beta
                   (create_rolling_engagement_rates
                      (create_lagged_engagement_features df)))))"


section \<open>Client against global deviation (clients_expectation_deviation_features.py)\<close>

text \<open>
  Float division is the one place where finite operands give an infinity, so its result has
  a type of its own. \<open>np_divide\<close> is numpy's elementwise division: a null operand gives NaN,
  a zero divisor gives NaN for \<open>0/0\<close> and a signed infinity otherwise.
\<close>

datatype xfloat = NaN | Fin real | PosInf | NegInf

definition np_divide :: "real option \<Rightarrow> real option \<Rightarrow> xfloat" where
  "np_divide a b =
     (case a of None \<Rightarrow> NaN
      | Some x \<Rightarrow>
          (case b of None \<Rightarrow> NaN
           | Some y \<Rightarrow>
               if y = 0 then (if x = 0 then NaN else if 0 < x then PosInf else NegInf)
               else Fin (x / y)))"

text \<open>\<open>Series.replace(0, np.nan)\<close>.\<close>

definition replace_zero_nan :: "real option \<Rightarrow> real option" where
  "replace_zero_nan v = (case v of None \<Rightarrow> None | Some y \<Rightarrow> if y = 0 then None else Some y)"

text \<open>\<open>df.replace([np.inf, -np.inf], np.nan)\<close> on one cell.\<close>

definition replace_inf_nan :: "xfloat \<Rightarrow> real option" where
  "replace_inf_nan v = (case v of Fin x \<Rightarrow> Some x | NaN \<Rightarrow> None | PosInf \<Rightarrow> None | NegInf \<Rightarrow> None)"

text \<open>\<open>(df[client_col] - df[global_col]) / df[global_col].replace(0, np.nan)\<close> on one row.\<close>

definition deviation_raw :: "real option \<Rightarrow> real option \<Rightarrow> xfloat" where
  "deviation_raw c g = np_divide (nan_sub c g) (replace_zero_nan g)"

definition deviation_metrics :: "(string \<times> string) list" where
  "deviation_metrics =
     [(''is_opened'', ''open''), (''is_clicked'', ''click''), (''is_purchased'', ''purchase'')]"

definition deviation_periods :: "string list" where
  "deviation_periods = [''1w'', ''1m'']"

text \<open>
  One pass of the loop body. The final \<open>df.replace\<close> of the function runs over the whole
  frame; every other column of the model is finite or null by its type, so the pass is applied
  where the quotient column is stored.
\<close>

definition deviation_values :: "frame \<Rightarrow> (string \<times> string) \<times> string \<Rightarrow> fcol" where
  "deviation_values df mp =
     (let client_col = fst (fst mp) @ ''_rate_'' @ snd mp;
          global_col = ''global_'' @ fst (fst mp) @ ''_rate_'' @ snd mp
      in if has_col df client_col \<and> has_col df global_col
         then (case num df client_col of
                 None \<Rightarrow> replicate (nrows df) None
               | Some c \<Rightarrow>
                   (case num df global_col of
                      None \<Rightarrow> replicate (nrows df) None
                    | Some g \<Rightarrow> map replace_inf_nan (map2 deviation_raw c g)))
         else replicate (nrows df) None)"

definition deviation_step :: "frame \<Rightarrow> (string \<times> string) \<times> string \<Rightarrow> frame" where
  "deviation_step df mp = assign df (snd (fst mp) @ ''_deviation_'' @ snd mp) (deviation_values df mp)"

definition add_client_vs_global_engagement_gap :: "frame \<Rightarrow> frame" where
  "add_client_vs_global_engagement_gap df =
     foldl deviation_step df (List.product deviation_metrics deviation_periods)"

section \<open>Spam and delivery health (spam_related_features.py)\<close>

text \<open>
  A loop whose body can raise: the first error ends it.
\<close>

primrec fold_err :: "('s \<Rightarrow> 'a \<Rightarrow> error + 's) \<Rightarrow> 's \<Rightarrow> 'a list \<Rightarrow> error + 's" where
  "fold_err f s [] = Inr s"
| "fold_err f s (x # xs) = (case f s x of Inl e \<Rightarrow> Inl e | Inr s' \<Rightarrow> fold_err f s' xs)"

text \<open>\<open>df[c]\<close> for a float column: KeyError when the column is missing.\<close>

definition get_num :: "frame \<Rightarrow> string \<Rightarrow> error + fcol" where
  "get_num df c = (case num df c of None \<Rightarrow> Inl (KeyError c) | Some vs \<Rightarrow> Inr vs)"

text \<open>
  \<open>Series.rolling(window, closed='left').mean()\<close> on the time index of the whole frame: the
  window of row \<open>i\<close> holds the rows before it with a timestamp of at least \<open>t i - window\<close>.
  pandas raises ValueError when the index is not monotonic; the model takes ascending order.
\<close>

definition rolling_rows :: "int list \<Rightarrow> int \<Rightarrow> nat \<Rightarrow> nat list" where
  "rolling_rows ts w i = filter (\<lambda>j. ts ! i - w \<le> ts ! j) [0..<i]"

definition rolling_mean :: "int list \<Rightarrow> int \<Rightarrow> fcol \<Rightarrow> error + fcol" where
  "rolling_mean ts w vs =
     (if sorted ts
      then Inr (map (\<lambda>i. nanmean (map (\<lambda>j. vs ! j) (rolling_rows ts w i))) [0..<length ts])
      else Inl (ValueError ''sent_at must be monotonic''))"

definition spam_metrics :: "string list" where
  "spam_metrics =
     [''is_soft_bounced'', ''is_hard_bounced'', ''is_blocked'', ''is_unsubscribed'', ''is_complained'']"

definition spam_periods :: "(string \<times> int) list" where
  "spam_periods = [(''1d'', days 1), (''1w'', days 7), (''1m'', days 30)]"

definition spam_rate_step :: "frame \<Rightarrow> frame \<Rightarrow> string \<times> string \<times> int \<Rightarrow> error + frame" where
  "spam_rate_step df_indexed df mp =
     (case get_num df_indexed (fst mp) of
        Inl e \<Rightarrow> Inl e
      | Inr vs \<Rightarrow>
          (case rolling_mean (sent_at df_indexed) (snd (snd mp)) vs of
             Inl e \<Rightarrow> Inl e
           | Inr rate \<Rightarrow> Inr (assign df (fst mp @ ''_rate_'' @ fst (snd mp)) rate)))"

definition spam_composite_step :: "frame \<Rightarrow> string \<Rightarrow> error + frame" where
  "spam_composite_step df label =
     (case get_num df (''is_soft_bounced_rate_'' @ label) of Inl e \<Rightarrow> Inl e | Inr soft \<Rightarrow>
      case get_num df (''is_hard_bounced_rate_'' @ label) of Inl e \<Rightarrow> Inl e | Inr hard \<Rightarrow>
      case get_num df (''is_blocked_rate_'' @ label) of Inl e \<Rightarrow> Inl e | Inr blocked \<Rightarrow>
      case get_num df (''is_unsubscribed_rate_'' @ label) of Inl e \<Rightarrow> Inl e | Inr unsub \<Rightarrow>
      case get_num df (''is_complained_rate_'' @ label) of Inl e \<Rightarrow> Inl e | Inr compl \<Rightarrow>
        Inr (assign
               (assign df (''delivery_rate_'' @ label)
                  (map (\<lambda>i. Some (1 - (fillna0 (soft ! i) + fillna0 (hard ! i)))) [0..<nrows df]))
               (''spam_risk_index_'' @ label)
               (map (\<lambda>i. Some (3 / 10 * fillna0 (soft ! i) + 4 / 10 * fillna0 (hard ! i)
                               + 2 / 10 * fillna0 (blocked ! i) + 5 / 100 * fillna0 (unsub ! i)
                               + 5 / 100 * fillna0 (compl ! i))) [0..<nrows df])))"

definition create_spam_health_features :: "frame \<Rightarrow> error + frame" where
  "create_spam_health_features df =
     (case fold_err (spam_rate_step df) df (List.product spam_metrics spam_periods) of
        Inl e \<Rightarrow> Inl e
      | Inr df1 \<Rightarrow> fold_err spam_composite_step df1 [''1d'', ''1w'', ''1m''])"


section \<open>Row operations\<close>

text \<open>\<open>df.iloc[idx]\<close>: the rows at the given positions, in that order, of every column.\<close>

definition take_rows :: "nat list \<Rightarrow> frame \<Rightarrow> frame" where
  "take_rows idx df =
     \<lparr>client_id = map (\<lambda>i. client_id df ! i) idx,
      sent_at = map (\<lambda>i. sent_at df ! i) idx,
      channel_x = map_option (\<lambda>col. map (\<lambda>i. col ! i) idx) (channel_x df),
      campaign_type = map_option (\<lambda>col. map (\<lambda>i. col ! i) idx) (campaign_type df),
      message_type = map_option (\<lambda>col. map (\<lambda>i. col ! i) idx) (message_type df),
      num = (\<lambda>c. map_option (\<lambda>col. map (\<lambda>i. col ! i) idx) (num df c))\<rparr>"

text \<open>
  \<open>df.sort_values('sent_at')\<close>. Rows with equal timestamps keep their order here; pandas'
  default sort makes no promise for them.
\<close>

definition sort_values_sent_at :: "frame \<Rightarrow> frame" where
  "sort_values_sent_at df = take_rows (sort_key (\<lambda>i. sent_at df ! i) [0..<nrows df]) df"

section \<open>Hourly buckets and the backward as-of join\<close>

definition hour_bucket :: "int \<Rightarrow> int" where
  "hour_bucket t = t div 3600"

text \<open>
  \<open>resample('1H')\<close> and \<open>pd.Grouper(key='sent_at', freq='1H')\<close>: one bucket for every hour
  from the hour of the first event to the hour of the last, with or without events.
\<close>

definition bucket_range :: "int list \<Rightarrow> int list" where
  "bucket_range ts =
     (if ts = [] then []
      else [Min (set (map hour_bucket ts)) .. Max (set (map hour_bucket ts))])"

definition bucket_times :: "int list \<Rightarrow> int list" where
  "bucket_times ts = map (\<lambda>b. b * 3600) (bucket_range ts)"

definition bucket_rows :: "int list \<Rightarrow> int \<Rightarrow> nat list" where
  "bucket_rows ts b = filter (\<lambda>i. hour_bucket (ts ! i) = b) [0..<length ts]"

text \<open>\<open>.resample('1H').mean()\<close>: the mean of a bucket's events, NaN for an empty bucket.\<close>

definition resample_mean :: "int list \<Rightarrow> fcol \<Rightarrow> fcol" where
  "resample_mean ts vs = map (\<lambda>b. nanmean (map (\<lambda>i. vs ! i) (bucket_rows ts b))) (bucket_range ts)"


text \<open>
  \<open>pd.merge_asof(..., direction='backward')\<close> on one joined column: every event takes the
  value of the last bucket whose timestamp is not after the event's, null when there is none.
\<close>

definition asof_index :: "int list \<Rightarrow> int \<Rightarrow> nat option" where
  "asof_index bt t =
     (case filter (\<lambda>j. bt ! j \<le> t) [0..<length bt] of [] \<Rightarrow> None | j # js \<Rightarrow> Some (last (j # js)))"

definition merge_asof_backward :: "int list \<Rightarrow> int list \<Rightarrow> fcol \<Rightarrow> fcol" where
  "merge_asof_backward ts bt col =
     map (\<lambda>t. case asof_index bt t of None \<Rightarrow> None | Some j \<Rightarrow> col ! j) ts"

section \<open>Global campaign performance (global_campaign_performance_features.py)\<close>

text \<open>\<open>astype(int)\<close> on a float: truncation toward zero.\<close>

definition astype_int :: "real \<Rightarrow> real" where
  "astype_int x = (if 0 \<le> x then of_int \<lfloor>x\<rfloor> else of_int \<lceil>x\<rceil>)"

text \<open>\<open>df[col] = df[col].fillna(0).astype(int)\<close>.\<close>

definition fill_flag :: "frame \<Rightarrow> string \<Rightarrow> error + frame" where
  "fill_flag df c =
     (case get_num df c of
        Inl e \<Rightarrow> Inl e
      | Inr vs \<Rightarrow> Inr (assign df c (map (\<lambda>v. Some (astype_int (fillna0 v))) vs)))"

text \<open>\<open>engagement_df[metric]\<close>: the hourly means with the empty buckets filled with 0.\<close>

definition engagement_series :: "int list \<Rightarrow> fcol \<Rightarrow> fcol" where
  "engagement_series ts vs = map (\<lambda>v. Some (fillna0 v)) (resample_mean ts vs)"

text \<open>The rolling mean over the bucket series, joined back to the events.\<close>

definition global_rate_col :: "frame \<Rightarrow> string \<Rightarrow> int \<Rightarrow> error + fcol" where
  "global_rate_col df metric w =
     (case get_num df metric of
        Inl e \<Rightarrow> Inl e
      | Inr vs \<Rightarrow>
          (case rolling_mean (bucket_times (sent_at df)) w (engagement_series (sent_at df) vs) of
             Inl e \<Rightarrow> Inl e
           | Inr r \<Rightarrow> Inr (merge_asof_backward (sent_at df) (bucket_times (sent_at df)) r)))"

definition global_step :: "frame \<Rightarrow> frame \<Rightarrow> (string \<times> int) \<times> string \<Rightarrow> error + frame" where
  "global_step df_indexed df pm =
     (case global_rate_col df_indexed (snd pm) (snd (fst pm)) of
        Inl e \<Rightarrow> Inl e
      | Inr col \<Rightarrow> Inr (assign df (''global_'' @ snd pm @ ''_rate_'' @ fst (fst pm)) col))"

definition global_periods :: "(string \<times> int) list" where
  "global_periods = [(''1d'', days 1), (''1w'', days 7), (''1m'', days 30)]"

definition add_global_campaign_performance_features :: "frame \<Rightarrow> error + frame" where
  "add_global_campaign_performance_features df =
     (case fold_err fill_flag (sort_values_sent_at df) engagement_metrics of
        Inl e \<Rightarrow> Inl e
      | Inr df1 \<Rightarrow> fold_err (global_step df1) df1 (List.product global_periods engagement_metrics))"

section \<open>Market features (market_features.py)\<close>





section \<open>Temporal features (temporal_features.py)\<close>

text \<open>
  The calendar fields of a timestamp (\<open>dt.hour\<close>, \<open>dt.weekday\<close> with Monday 0, \<open>dt.day\<close>,
  \<open>dt.month\<close>, \<open>dt.quarter\<close>), from seconds since 1970-01-01, a Thursday.
\<close>

definition dt_hour :: "int \<Rightarrow> int" where
  "dt_hour t = (t div 3600) mod 24"

definition dt_weekday :: "int \<Rightarrow> int" where
  "dt_weekday t = (t div 86400 + 3) mod 7"

definition civil_from_days :: "int \<Rightarrow> int \<times> int \<times> int" where
  "civil_from_days z0 =
     (let z = z0 + 719468;
          era = z div 146097;
          doe = z - era * 146097;
          yoe = (doe - doe div 1460 + doe div 36524 - doe div 146096) div 365;
          doy = doe - (365 * yoe + yoe div 4 - yoe div 100);
          mp = (5 * doy + 2) div 153;
          d = doy - (153 * mp + 2) div 5 + 1;
          m = (if mp < 10 then mp + 3 else mp - 9)
      in (yoe + era * 400 + (if m \<le> 2 then 1 else 0), m, d))"

definition dt_month :: "int \<Rightarrow> int" where
  "dt_month t = fst (snd (civil_from_days (t div 86400)))"

definition dt_day :: "int \<Rightarrow> int" where
  "dt_day t = snd (snd (civil_from_days (t div 86400)))"

definition dt_quarter :: "int \<Rightarrow> int" where
  "dt_quarter t = (dt_month t - 1) div 3 + 1"

definition int_col :: "(int \<Rightarrow> int) \<Rightarrow> int list \<Rightarrow> fcol" where
  "int_col f ts = map (\<lambda>t. Some (of_int (f t))) ts"

text \<open>\<open>cond.astype(int)\<close>.\<close>

definition flag_col :: "('a \<Rightarrow> bool) \<Rightarrow> 'a list \<Rightarrow> fcol" where
  "flag_col p xs = map (\<lambda>x. Some (if p x then 1 else 0)) xs"

text \<open>\<open>groupby(key)['sent_at'].diff().dt.total_seconds().div(86400)\<close>.\<close>

definition days_since_last :: "'k list \<Rightarrow> int list \<Rightarrow> fcol" where
  "days_since_last ks ts =
     map (\<lambda>i. case prior_rows ks i of [] \<Rightarrow> None
               | j # js \<Rightarrow> Some (of_int (ts ! i - ts ! last (j # js)) / 86400))
       [0..<length ts]"

text \<open>The gap to the client's previous message on channel \<open>ch\<close>, null on other channels.\<close>

definition days_since_last_channel :: "string \<Rightarrow> nat list \<Rightarrow> string list \<Rightarrow> int list \<Rightarrow> fcol" where
  "days_since_last_channel ch ks chan ts =
     map2 (\<lambda>c v. if c = ch then v else None) chan (days_since_last (zip ks chan) ts)"

definition channel_gap :: "frame \<Rightarrow> string \<Rightarrow> frame" where
  "channel_gap df ch =
     (case channel_x df of
        None \<Rightarrow> df
      | Some chan \<Rightarrow>
          assign df (''days_since_last_'' @ ch)
            (if ch \<in> set chan then days_since_last_channel ch (client_id df) chan (sent_at df)
             else replicate (nrows df) None))"

definition create_temporal_features :: "frame \<Rightarrow> frame" where
  "create_temporal_features df =
     (let ts = sent_at df;
          df1 = assign df ''hour'' (int_col dt_hour ts);
          df2 = assign df1 ''weekday'' (int_col dt_weekday ts);
          df3 = assign df2 ''day_of_month'' (int_col dt_day ts);
          df4 = assign df3 ''month'' (int_col dt_month ts);
          df5 = assign df4 ''quarter'' (int_col dt_quarter ts);
          df6 = assign df5 ''is_weekend'' (flag_col (\<lambda>t. 5 \<le> dt_weekday t) ts);
          df7 = assign df6 ''is_working_hours'' (flag_col (\<lambda>t. 9 \<le> dt_hour t \<and> dt_hour t \<le> 18) ts);
          df8 = assign df7 ''is_morning'' (flag_col (\<lambda>t. 6 \<le> dt_hour t \<and> dt_hour t \<le> 12) ts);
          df9 = assign df8 ''is_afternoon'' (flag_col (\<lambda>t. 12 \<le> dt_hour t \<and> dt_hour t \<le> 18) ts);
          df10 = assign df9 ''is_evening'' (flag_col (\<lambda>t. 18 \<le> dt_hour t \<and> dt_hour t \<le> 23) ts);
          df11 = assign df10 ''is_night'' (flag_col (\<lambda>t. 23 \<le> dt_hour t \<or> dt_hour t < 6) ts);
          df12 = assign df11 ''days_since_last_msg'' (days_since_last (client_id df) ts)
      in if has_col df12 ''channel_x'' then foldl channel_gap df12 [''email'', ''push''] else df12)"

section \<open>Rolling features (rolling_features.py)\<close>

datatype agg = Count | Sum | Mean | NUnique

text \<open>
  One window aggregate with \<open>min_periods = 1\<close>: null when the window has no non-null cell.
\<close>

definition aggregate :: "agg \<Rightarrow> fcol \<Rightarrow> real option" where
  "aggregate a vs =
     (if somes vs = [] then None
      else (case a of
              Count \<Rightarrow> Some (real (length (somes vs)))
            | Sum \<Rightarrow> Some (sum_list (somes vs))
            | Mean \<Rightarrow> nanmean vs
            | NUnique \<Rightarrow> Some (real (length (remdups (somes vs))))))"

definition groupby_rolling :: "agg \<Rightarrow> nat list \<Rightarrow> int list \<Rightarrow> int \<Rightarrow> fcol \<Rightarrow> error + fcol" where
  "groupby_rolling a ks ts w vs =
     (if monotonic_groups ks ts
      then Inr (map (\<lambda>i. aggregate a (map (\<lambda>j. vs ! j) (window_rows ks ts w i))) (groupby_order ks))
      else Inl (ValueError ''Each group within sent_at must be monotonic''))"

text \<open>The body of the \<open>try\<close> block with its \<open>except\<close>: an exception leaves the column null.\<close>

definition rolling_values :: "frame \<Rightarrow> agg \<Rightarrow> int \<Rightarrow> fcol \<Rightarrow> fcol" where
  "rolling_values df_indexed a w vs =
     (case groupby_rolling a (client_id df_indexed) (sent_at df_indexed) w vs of
        Inl e \<Rightarrow> replicate (nrows df_indexed) None
      | Inr vals \<Rightarrow> vals)"

text \<open>A configuration is (column, output prefix, aggregation, window, period name).\<close>

type_synonym rolling_config = "string \<times> string \<times> agg \<times> int \<times> string"

definition three_periods :: "string \<Rightarrow> string \<Rightarrow> agg \<Rightarrow> rolling_config list" where
  "three_periods col prefix a =
     [(col, prefix, a, days 1, ''1d''), (col, prefix, a, days 7, ''1w''),
      (col, prefix, a, days 30, ''1m'')]"

definition base_configs :: "rolling_config list" where
  "base_configs =
     three_periods ''message_id'' ''sent_count'' Count
     @ three_periods ''is_email'' ''sent_count_email'' Sum
     @ three_periods ''is_push'' ''sent_count_push'' Sum
     @ three_periods ''days_since_last_msg'' ''avg_interval'' Mean
     @ [(''is_weekend'', ''weekend_ratio'', Mean, days 7, ''1w''),
        (''is_weekend'', ''weekend_ratio'', Mean, days 30, ''1m'')]
     @ three_periods ''is_working_hours'' ''working_hours_ratio'' Mean"

definition rolling_configs :: "frame \<Rightarrow> rolling_config list" where
  "rolling_configs df =
     base_configs
     @ (if has_col df ''campaign_type''
        then concat (map (\<lambda>ctype. three_periods (''is_'' @ ctype) (ctype @ ''_count'') Sum)
                       [''bulk'', ''triggered'', ''transactional''])
        else [])
     @ (if has_col df ''subject_length''
        then three_periods ''subject_length'' ''avg_subject_len'' Mean else [])
     @ concat (map (\<lambda>feat. if has_col df (''subject_with_'' @ feat)
                            then three_periods (''subject_with_'' @ feat)
                                   (''subject_'' @ feat @ ''_prop'') Mean
                            else [])
                 [''personalization'', ''bonuses'', ''saleout'', ''discount'', ''deadline'', ''emoji''])
     @ concat (map (\<lambda>mode_col. if has_col df mode_col
                                then three_periods mode_col (mode_col @ ''_count'') Sum else [])
                 [''ab_test'', ''warmup_mode''])"

definition rolling_feature :: "frame \<Rightarrow> frame \<Rightarrow> rolling_config \<Rightarrow> frame" where
  "rolling_feature df_indexed df cfg =
     (case cfg of (col, prefix, a, w, period) \<Rightarrow>
        if has_col df_indexed col
        then (case num df_indexed col of
                None \<Rightarrow> df
              | Some vs \<Rightarrow> assign df (prefix @ ''_'' @ period) (rolling_values df_indexed a w vs))
        else df)"

definition unique_campaigns :: "frame \<Rightarrow> frame \<Rightarrow> int \<times> string \<Rightarrow> frame" where
  "unique_campaigns df_indexed df wp =
     (case num df_indexed ''campaign_id'' of
        None \<Rightarrow> df
      | Some camp \<Rightarrow>
          assign df (''unique_campaigns_'' @ snd wp) (rolling_values df_indexed NUnique (fst wp) camp))"

text \<open>\<open>groupby(['client_id', 'campaign_id']).cumcount() + 1\<close>; null where the key is null.\<close>

definition msg_position :: "nat list \<Rightarrow> fcol \<Rightarrow> fcol" where
  "msg_position ks camp =
     map (\<lambda>i. case camp ! i of None \<Rightarrow> None
               | Some c \<Rightarrow> Some (real (length (prior_rows (zip ks camp) i)) + 1))
       [0..<length ks]"

definition channel_indicator :: "frame \<Rightarrow> string \<Rightarrow> fcol" where
  "channel_indicator df ch =
     (case channel_x df of
        None \<Rightarrow> replicate (nrows df) (Some 0)
      | Some chan \<Rightarrow> flag_col (\<lambda>c. c = ch) chan)"

definition campaign_type_indicators :: "frame \<Rightarrow> frame" where
  "campaign_type_indicators df =
     (case campaign_type df of
        None \<Rightarrow> df
      | Some ct \<Rightarrow>
          assign
            (assign (assign df ''is_bulk'' (flag_col (\<lambda>c. c = ''bulk'') ct))
               ''is_triggered'' (flag_col (\<lambda>c. c = ''triggered'') ct))
            ''is_transactional'' (flag_col (\<lambda>c. c = ''transactional'') ct))"

definition campaign_position :: "frame \<Rightarrow> frame" where
  "campaign_position df =
     (if has_col df ''campaign_id''
      then (case num df ''campaign_id'' of
              None \<Rightarrow> df
            | Some camp \<Rightarrow>
                assign df ''msg_position_in_campaign'' (msg_position (client_id df) camp))
      else df)"

definition create_rolling_features :: "frame \<Rightarrow> frame" where
  "create_rolling_features df =
     (let df1 = assign df ''is_email'' (channel_indicator df ''email'');
          df2 = assign df1 ''is_push'' (channel_indicator df1 ''push'');
          df_indexed = campaign_position (campaign_type_indicators df2);
          df3 = foldl (rolling_feature df_indexed) df_indexed (rolling_configs df_indexed)
      in if has_col df_indexed ''campaign_id''
         then foldl (unique_campaigns df_indexed) df3
                [(days 1, ''1d''), (days 7, ''1w''), (days 30, ''1m'')]
         else df3)"

section \<open>The pipeline (feature_engineering.py)\<close>



section \<open>Specification-side definitions and example frames\<close>

text \<open>
  The window of the specification's rolling contract: all events of the same group with
  \<open>sent_at\<close> in \<open>[t - window, t)\<close>.
\<close>

definition spec_window :: "'k list \<Rightarrow> int list \<Rightarrow> int \<Rightarrow> nat \<Rightarrow> nat list" where
  "spec_window ks ts w i =
     filter (\<lambda>j. ks ! j = ks ! i \<and> ts ! i - w \<le> ts ! j \<and> ts ! j < ts ! i) [0..<length ks]"

text \<open>
  Within every group the rows stand in strictly increasing \<open>sent_at\<close> order: the frame is
  time-sorted and holds one row per \<open>(client_id, sent_at)\<close>.
\<close>

definition strict_groups :: "'k list \<Rightarrow> int list \<Rightarrow> bool" where
  "strict_groups ks ts =
     list_all (\<lambda>i. list_all (\<lambda>j. ts ! j < ts ! i) (prior_rows ks i)) [0..<length ks]"

text \<open>
  The specification's scenario: one client with messages at day 0 (opened), day 3 (not
  opened) and day 10 (opened); and the same frame with the last outcome flag altered.
\<close>

definition scenario :: frame where
  "scenario =
     \<lparr>client_id = [7, 7, 7], sent_at = [days 0, days 3, days 10],
      channel_x = None, campaign_type = None, message_type = None,
      num = (\<lambda>c. None)(''is_opened'' := Some [Some 1, Some 0, Some 1])\<rparr>"

definition scenario_altered :: frame where
  "scenario_altered =
     \<lparr>client_id = [7, 7, 7], sent_at = [days 0, days 3, days 10],
      channel_x = None, campaign_type = None, message_type = None,
      num = (\<lambda>c. None)(''is_opened'' := Some [Some 1, Some 0, Some 0])\<rparr>"


text \<open>
  A frame with a client rate and a global rate column: a non-zero global rate, a zero global
  rate and a null client rate.
\<close>

definition dev_example :: frame where
  "dev_example =
     \<lparr>client_id = [1, 1, 1], sent_at = [days 0, days 1, days 2],
      channel_x = None, campaign_type = None, message_type = None,
      num = ((\<lambda>c. None)(''is_opened_rate_1w'' := Some [Some (1 / 2), Some 1, None]))
              (''global_is_opened_rate_1w'' := Some [Some (1 / 4), Some 0, Some (1 / 2)])\<rparr>"

text \<open>Three messages of two clients within two hours, with all five delivery flags.\<close>

definition spam_example :: frame where
  "spam_example =
     \<lparr>client_id = [1, 2, 1], sent_at = [0, 1800, 7200],
      channel_x = None, campaign_type = None, message_type = None,
      num = ((((((\<lambda>c. None)(''is_soft_bounced'' := Some [Some 1, Some 0, Some 0]))
              (''is_hard_bounced'' := Some [Some 0, Some 1, Some 0]))
              (''is_blocked'' := Some [Some 1, Some 1, Some 0]))
              (''is_unsubscribed'' := Some [Some 0, Some 0, Some 0]))
              (''is_complained'' := Some [Some 1, Some 0, Some 0]))\<rparr>"



text \<open>
  The naming convention of the per-metric engagement features: the suffixes appended to the
  metric's name.
\<close>

definition engagement_suffixes :: "string list" where
  "engagement_suffixes =
     [''_prev'', ''_rate_1w'', ''_rate_1m'', ''_rate_prev_smooth'', ''_rate_campaign_per_client'',
      ''_rate_campaign'', ''_expect_gap_1w'', ''_expect_gap_1m'', ''_expect_gap_overall'']"

section \<open>Properties of the engagement features\<close>

lemma num_assign [simp]: "num (assign df c vs) x = (if x = c then Some vs else num df x)"
  by (simp add: assign_def)

lemma assign_fields [simp]:
  "client_id (assign df c vs) = client_id df"
  "sent_at (assign df c vs) = sent_at df"
  "channel_x (assign df c vs) = channel_x df"
  "campaign_type (assign df c vs) = campaign_type df"
  "message_type (assign df c vs) = message_type df"
  "nrows (assign df c vs) = nrows df"
  by (simp_all add: assign_def nrows_def)

lemma length_groupby_apply [simp]: "length (groupby_apply f ks vs) = length ks"
  by (simp add: groupby_apply_def)

lemma groupby_apply_nth:
  "i < length ks \<Longrightarrow>
   groupby_apply f ks vs ! i = f (map (\<lambda>j. vs ! j) (group_rows ks i)) ! length (prior_rows ks i)"
  by (simp add: groupby_apply_def)

lemma group_rows_split:
  assumes "i < length ks"
  shows "group_rows ks i = prior_rows ks i @ i # filter (\<lambda>j. ks ! j = ks ! i) [Suc i..<length ks]"
proof -
  have "[0..<length ks] = [0..<i] @ [i..<length ks]"
    using upt_add_eq_append [of 0 i "length ks - i"] assms by simp
  then have "[0..<length ks] = [0..<i] @ i # [Suc i..<length ks]"
    using assms by (simp add: upt_conv_Cons)
  then show ?thesis
    by (simp add: group_rows_def prior_rows_def)
qed

lemma shift1_nth_0: "vs \<noteq> [] \<Longrightarrow> shift1 vs ! 0 = None"
  by (cases vs) (simp_all add: shift1_def)

lemma shift1_nth_Suc: "Suc n < length vs \<Longrightarrow> shift1 vs ! Suc n = vs ! n"
  by (cases vs) (simp_all add: shift1_def nth_butlast del: butlast.simps)

lemma length_shift1 [simp]: "length (shift1 vs) = length vs"
  by (cases vs) (simp_all add: shift1_def)

lemma groupby_shift_nth:
  assumes "i < length ks"
  shows "groupby_apply shift1 ks vs ! i =
         (case prior_rows ks i of [] \<Rightarrow> None | j # js \<Rightarrow> vs ! last (j # js))"
proof (cases "prior_rows ks i")
  case Nil
  then show ?thesis
    using assms by (simp add: groupby_apply_nth group_rows_split shift1_nth_0)
next
  case (Cons j js)
  let ?g = "map (\<lambda>j. vs ! j) (group_rows ks i)"
  have len: "length (prior_rows ks i) = Suc (length js)" using Cons by simp
  have "Suc (length js) < length ?g"
    using assms by (simp add: group_rows_split Cons)
  then have "shift1 ?g ! Suc (length js) = ?g ! length js"
    by (rule shift1_nth_Suc)
  also have "\<dots> = map (\<lambda>j. vs ! j) (prior_rows ks i) ! length js"
    using assms len by (simp add: group_rows_split nth_append del: map_append)
  also have "\<dots> = vs ! ((j # js) ! length js)"
    unfolding Cons by (rule nth_map) simp
  also have "(j # js) ! length js = last (j # js)"
    by (metis last_conv_nth length_Cons diff_Suc_1 list.distinct(1))
  finally show ?thesis
    using assms by (simp add: groupby_apply_nth len Cons)
qed

lemma groupby_order_sorted: "sorted ks \<Longrightarrow> groupby_order ks = [0..<length ks]"
  unfolding groupby_order_def
  by (rule sort_key_id_if_sorted) (simp add: map_nth)

lemma has_col_assign:
  "has_col (assign df c vs) x =
     (has_col df x \<or> (x = c \<and> c \<noteq> ''client_id'' \<and> c \<noteq> ''sent_at'' \<and> c \<noteq> ''channel_x''
          \<and> c \<noteq> ''campaign_type'' \<and> c \<noteq> ''message_type''))"
  by (auto simp: has_col_def)

lemma has_col_num:
  "c \<noteq> ''client_id'' \<Longrightarrow> c \<noteq> ''sent_at'' \<Longrightarrow> c \<noteq> ''channel_x'' \<Longrightarrow>
   c \<noteq> ''campaign_type'' \<Longrightarrow> c \<noteq> ''message_type'' \<Longrightarrow> has_col df c = (num df c \<noteq> None)"
  by (simp add: has_col_def)

lemma lag_column_fields [simp]:
  "client_id (lag_column df c) = client_id df"
  "sent_at (lag_column df c) = sent_at df"
  "nrows (lag_column df c) = nrows df"
  by (simp_all add: lag_column_def split: option.splits)

lemma num_lag_column_other: "x \<noteq> c @ ''_prev'' \<Longrightarrow> num (lag_column df c) x = num df x"
  by (simp add: lag_column_def split: option.splits)

lemma num_lag_column_prev:
  "x = c @ ''_prev'' \<Longrightarrow> num df c = Some vs \<Longrightarrow> has_col df c \<Longrightarrow>
   num (lag_column df c) x = Some (groupby_apply shift1 (client_id df) vs)"
  by (simp add: lag_column_def)

lemma has_col_lag_column: "has_col df x \<Longrightarrow> has_col (lag_column df c) x"
  by (simp add: lag_column_def has_col_assign split: option.splits)

lemma lagged_fields [simp]:
  "client_id (create_lagged_engagement_features df) = client_id df"
  "sent_at (create_lagged_engagement_features df) = sent_at df"
  "nrows (create_lagged_engagement_features df) = nrows df"
  by (simp_all add: create_lagged_engagement_features_def engagement_metrics_def)

lemma engagement_metrics_cases:
  assumes "m \<in> set engagement_metrics"
  obtains "m = ''is_opened''" | "m = ''is_clicked''" | "m = ''is_purchased''"
  using assms unfolding engagement_metrics_def by fastforce

lemma lagged_prev:
  assumes "m \<in> set engagement_metrics" "num df m = Some vs"
  shows "num (create_lagged_engagement_features df) (m @ ''_prev'')
           = Some (groupby_apply shift1 (client_id df) vs)"
  using assms(1)
proof (cases rule: engagement_metrics_cases)
  case 1
  then show ?thesis using assms(2)
    by (simp add: create_lagged_engagement_features_def engagement_metrics_def
          num_lag_column_other num_lag_column_prev has_col_num)
next
  case 2
  then show ?thesis using assms(2)
    by (simp add: create_lagged_engagement_features_def engagement_metrics_def
          num_lag_column_other num_lag_column_prev has_col_num)
next
  case 3
  then show ?thesis using assms(2)
    by (simp add: create_lagged_engagement_features_def engagement_metrics_def
          num_lag_column_other num_lag_column_prev has_col_num)
qed

lemma lagged_keeps:
  assumes "m \<in> set engagement_metrics"
  shows "num (create_lagged_engagement_features df) m = num df m"
  using assms
  by (cases rule: engagement_metrics_cases)
     (simp_all add: create_lagged_engagement_features_def engagement_metrics_def num_lag_column_other)

lemma prior_rows_iff: "j \<in> set (prior_rows ks i) \<longleftrightarrow> j < i \<and> ks ! j = ks ! i"
  by (auto simp: prior_rows_def)

lemma strict_groupsD:
  "strict_groups ks ts \<Longrightarrow> i < length ks \<Longrightarrow> j < i \<Longrightarrow> ks ! j = ks ! i \<Longrightarrow> ts ! j < ts ! i"
  by (simp add: strict_groups_def list_all_iff prior_rows_iff)

lemma strict_imp_monotonic: "strict_groups ks ts \<Longrightarrow> monotonic_groups ks ts"
  unfolding strict_groups_def monotonic_groups_def list_all_iff by fastforce

lemma window_rows_spec:
  assumes "strict_groups ks ts" "i < length ks"
  shows "window_rows ks ts w i = spec_window ks ts w i"
proof -
  let ?P = "\<lambda>j. ks ! j = ks ! i \<and> ts ! i - w \<le> ts ! j \<and> ts ! j < ts ! i"
  have split: "[0..<length ks] = [0..<i] @ [i..<length ks]"
    using upt_add_eq_append [of 0 i "length ks - i"] assms(2) by simp
  have late: "filter ?P [i..<length ks] = []"
  proof -
    have "\<not> ?P j" if "j \<in> set [i..<length ks]" for j
    proof (cases "j = i")
      case True then show ?thesis by simp
    next
      case False
      with that have "i < j" "j < length ks" by auto
      then show ?thesis using strict_groupsD [OF assms(1), of j i] by fastforce
    qed
    then show ?thesis by (simp add: filter_empty_conv)
  qed
  have early: "filter ?P [0..<i] = filter (\<lambda>j. ts ! i - w \<le> ts ! j) (filter (\<lambda>j. ks ! j = ks ! i) [0..<i])"
    unfolding filter_filter
    by (rule filter_cong) (use strict_groupsD [OF assms] in auto)
  show ?thesis
    unfolding spec_window_def window_rows_def prior_rows_def
    by (subst split) (simp only: filter_append late early append_Nil2)
qed

lemma rolling_rate_fields [simp]:
  "client_id (rolling_rates_metric dfi d m) = client_id d"
  "sent_at (rolling_rates_metric dfi d m) = sent_at d"
  by (simp_all add: rolling_rates_metric_def rolling_rate_def)

lemma has_col_rolling_rates_metric:
  "has_col d x \<Longrightarrow> has_col (rolling_rates_metric dfi d m) x"
  by (simp add: rolling_rates_metric_def rolling_rate_def has_col_assign)

lemma num_rolling_rates_metric_other:
  "x \<noteq> m @ ''_rate_1w'' \<Longrightarrow> x \<noteq> m @ ''_rate_1m'' \<Longrightarrow>
   num (rolling_rates_metric dfi d m) x = num d x"
  by (simp add: rolling_rates_metric_def rolling_rate_def)

lemma num_rolling_rates_metric_1w:
  "has_col d (m @ ''_prev'') \<Longrightarrow> x = m @ ''_rate_1w'' \<Longrightarrow>
   num (rolling_rates_metric dfi d m) x = Some (rolling_rate_values dfi m (days 7))"
  by (simp add: rolling_rates_metric_def rolling_rate_def)

lemma num_rolling_rates_metric_1m:
  "has_col d (m @ ''_prev'') \<Longrightarrow> x = m @ ''_rate_1m'' \<Longrightarrow>
   num (rolling_rates_metric dfi d m) x = Some (rolling_rate_values dfi m (days 30))"
  by (simp add: rolling_rates_metric_def rolling_rate_def)

lemmas rrm_simps = has_col_rolling_rates_metric num_rolling_rates_metric_other
  num_rolling_rates_metric_1w num_rolling_rates_metric_1m

lemma rolling_rates_1w:
  assumes "m \<in> set engagement_metrics" "has_col df m" "has_col df (m @ ''_prev'')"
  shows "num (create_rolling_engagement_rates df) (m @ ''_rate_1w'')
           = Some (rolling_rate_values df m (days 7))"
  using assms(1)
proof (cases rule: engagement_metrics_cases)
  case 1
  then show ?thesis using assms(2,3)
    by (simp add: create_rolling_engagement_rates_def available_metrics_def engagement_metrics_def rrm_simps)
next
  case 2
  then show ?thesis using assms(2,3)
    by (simp add: create_rolling_engagement_rates_def available_metrics_def engagement_metrics_def rrm_simps)
next
  case 3
  then show ?thesis using assms(2,3)
    by (simp add: create_rolling_engagement_rates_def available_metrics_def engagement_metrics_def rrm_simps)
qed

lemma rolling_rates_1m:
  assumes "m \<in> set engagement_metrics" "has_col df m" "has_col df (m @ ''_prev'')"
  shows "num (create_rolling_engagement_rates df) (m @ ''_rate_1m'')
           = Some (rolling_rate_values df m (days 30))"
  using assms
  by (cases rule: engagement_metrics_cases)
     (simp_all add: create_rolling_engagement_rates_def available_metrics_def engagement_metrics_def rrm_simps)

lemma rolling_keeps:
  assumes "x \<notin> {''is_opened_rate_1w'', ''is_opened_rate_1m'', ''is_clicked_rate_1w'',
     ''is_clicked_rate_1m'', ''is_purchased_rate_1w'', ''is_purchased_rate_1m''}"
  shows "num (create_rolling_engagement_rates df) x = num df x"
  using assms
  by (simp add: create_rolling_engagement_rates_def available_metrics_def engagement_metrics_def
        num_rolling_rates_metric_other)

lemma rolling_fields [simp]:
  "client_id (create_rolling_engagement_rates df) = client_id df"
  "sent_at (create_rolling_engagement_rates df) = sent_at df"
  by (simp_all add: create_rolling_engagement_rates_def available_metrics_def engagement_metrics_def)

lemma smoothed_metric_fields [simp]:
  "client_id (smoothed_metric a b d m) = client_id d"
  "sent_at (smoothed_metric a b d m) = sent_at d"
  by (simp_all add: smoothed_metric_def split: option.splits)

lemma num_smoothed_metric_other:
  "x \<noteq> m @ ''_rate_prev_smooth'' \<Longrightarrow> num (smoothed_metric a b d m) x = num d x"
  by (simp add: smoothed_metric_def split: option.splits)


lemma smoothed_fields [simp]:
  "client_id (create_bayesian_smoothed_rates a b df) = client_id df"
  "sent_at (create_bayesian_smoothed_rates a b df) = sent_at df"
  by (simp_all add: create_bayesian_smoothed_rates_def available_metrics_def engagement_metrics_def)



lemma cell_Some: "num df c = Some col \<Longrightarrow> cell df c i = Some (col ! i)"
  by (simp add: cell_def)

lemma length_cumsum_from [simp]: "length (cumsum_from acc vs) = length vs"
  by (induction vs arbitrary: acc) (simp_all split: option.splits)



lemma bayesian_shrinkage_zero_trials:
  "bayesian_shrinkage 0 0 (Some g) 1 1 = Some (g / 2)"
  by (simp add: bayesian_shrinkage_def)

lemma bayesian_shrinkage_converges:
  assumes "0 \<le> p" "p \<le> 1" "0 \<le> g" "g \<le> 1"
  shows "bayesian_shrinkage (p * real n) (real n) (Some g) 1 1
           = Some ((p * real n + g) / (real n + 2))
         \<and> \<bar>(p * real n + g) / (real n + 2) - p\<bar> \<le> 2 / (real n + 2)"
proof -
  have pos: "0 < real n + 2" by simp
  have "(p * real n + g) / (real n + 2) - p = (g - 2 * p) / (real n + 2)"
    using pos by (simp add: field_simps)
  moreover have "\<bar>g - 2 * p\<bar> \<le> 2" using assms by (simp add: abs_le_iff)
  ultimately have "\<bar>(p * real n + g) / (real n + 2) - p\<bar> \<le> 2 / (real n + 2)"
    using pos by (simp add: divide_right_mono)
  then show ?thesis by (simp add: bayesian_shrinkage_def)
qed

lemma lagged_has_col:
  assumes "m \<in> set engagement_metrics" "num df m = Some vs"
  shows "has_col (create_lagged_engagement_features df) m"
    and "has_col (create_lagged_engagement_features df) (m @ ''_prev'')"
proof -
  show "has_col (create_lagged_engagement_features df) m"
    using assms(1) lagged_keeps [OF assms(1), of df] assms(2)
    by (cases rule: engagement_metrics_cases) (simp_all add: has_col_num)
  show "has_col (create_lagged_engagement_features df) (m @ ''_prev'')"
    using assms(1) lagged_prev [OF assms]
    by (cases rule: engagement_metrics_cases) (simp_all add: has_col_num)
qed

lemma rolling_rate_values_sorted:
  assumes "num dfi (m @ ''_prev'') = Some prev" "sorted (client_id dfi)"
    "monotonic_groups (client_id dfi) (sent_at dfi)" "i < length (client_id dfi)"
  shows "rolling_rate_values dfi m w ! i
           = nanmean (map (\<lambda>j. prev ! j) (window_rows (client_id dfi) (sent_at dfi) w i))"
  using assms
  by (simp add: rolling_rate_values_def groupby_rolling_mean_def groupby_order_sorted)

lemma rolling_prev_keeps:
  assumes "m \<in> set engagement_metrics"
  shows "num (create_rolling_engagement_rates df) (m @ ''_prev'') = num df (m @ ''_prev'')"
  using assms
  by (cases rule: engagement_metrics_cases) (simp_all add: rolling_keeps)

subsection \<open>Expanding means\<close>

lemma nanmean_None_Cons [simp]: "nanmean (None # vs) = nanmean vs"
  by (simp add: nanmean_def)

lemma nanmean_Nil [simp]: "nanmean [] = None"
  by (simp add: nanmean_def)




lemma length_groupby_transform [simp]: "length (groupby_transform f ks vs) = length ks"
  by (simp add: groupby_transform_def)



subsection \<open>create_campaign_quality_features\<close>

lemma campaign_metric_fields [simp]:
  "client_id (campaign_quality_metric d m) = client_id d"
  "sent_at (campaign_quality_metric d m) = sent_at d"
  by (simp_all add: campaign_quality_metric_def split: option.splits)

lemma num_campaign_metric_other:
  "x \<noteq> m @ ''_rate_campaign_per_client'' \<Longrightarrow> x \<noteq> m @ ''_rate_campaign'' \<Longrightarrow>
   num (campaign_quality_metric d m) x = num d x"
  by (simp add: campaign_quality_metric_def split: option.splits)




lemma campaign_fields [simp]:
  "client_id (create_campaign_quality_features df) = client_id df"
  "sent_at (create_campaign_quality_features df) = sent_at df"
  by (simp_all add: create_campaign_quality_features_def available_metrics_def engagement_metrics_def)




subsection \<open>create_expectation_gap_features\<close>

lemma gap_period_fields [simp]:
  "client_id (gap_period m d p) = client_id d"
  "sent_at (gap_period m d p) = sent_at d"
  by (simp_all add: gap_period_def split: option.splits)

lemma num_gap_period_other:
  "x \<noteq> m @ ''_expect_gap_'' @ p \<Longrightarrow> num (gap_period m d p) x = num d x"
  by (simp add: gap_period_def split: option.splits)

lemma gap_metric_fields [simp]:
  "client_id (expectation_gap_metric d m) = client_id d"
  "sent_at (expectation_gap_metric d m) = sent_at d"
  by (simp_all add: expectation_gap_metric_def Let_def split: option.splits)

lemma num_gap_metric_other:
  "x \<noteq> m @ ''_expect_gap_1w'' \<Longrightarrow> x \<noteq> m @ ''_expect_gap_1m'' \<Longrightarrow>
   x \<noteq> m @ ''_expect_gap_overall'' \<Longrightarrow> num (expectation_gap_metric d m) x = num d x"
  by (simp add: expectation_gap_metric_def Let_def num_gap_period_other split: option.splits)

lemma gap_fields [simp]:
  "client_id (create_expectation_gap_features df) = client_id df"
  "sent_at (create_expectation_gap_features df) = sent_at df"
  by (simp_all add: create_expectation_gap_features_def available_metrics_def engagement_metrics_def)


subsection \<open>create_engagement_features\<close>








lemma window_rows_subset: "prior_rows ks i = [] \<Longrightarrow> window_rows ks ts w i = []"
  by (simp add: window_rows_def)

lemma length_groupby_order [simp]: "length (groupby_order ks) = length ks"
  by (simp add: groupby_order_def)



section \<open>Properties of the deviation features\<close>

lemma deviation_step_fields [simp]:
  "client_id (deviation_step d mp) = client_id d"
  "sent_at (deviation_step d mp) = sent_at d"
  "nrows (deviation_step d mp) = nrows d"
  by (simp_all add: deviation_step_def)

lemma num_deviation_step_other:
  "x \<noteq> snd (fst mp) @ ''_deviation_'' @ snd mp \<Longrightarrow> num (deviation_step d mp) x = num d x"
  by (simp add: deviation_step_def)

lemma num_deviation_step_hit:
  "x = snd (fst mp) @ ''_deviation_'' @ snd mp \<Longrightarrow>
   num (deviation_step d mp) x = Some (deviation_values d mp)"
  by (simp add: deviation_step_def)

lemma deviation_cases:
  assumes "mm \<in> set deviation_metrics"
  obtains "mm = (''is_opened'', ''open'')" | "mm = (''is_clicked'', ''click'')"
    | "mm = (''is_purchased'', ''purchase'')"
  using assms unfolding deviation_metrics_def by fastforce

lemma period_cases:
  assumes "p \<in> set deviation_periods"
  obtains "p = ''1w''" | "p = ''1m''"
  using assms unfolding deviation_periods_def by fastforce

lemma deviation_col:
  assumes "mm \<in> set deviation_metrics" "p \<in> set deviation_periods"
  shows "num (add_client_vs_global_engagement_gap df) (snd mm @ ''_deviation_'' @ p)
           = Some (deviation_values df (mm, p))"
  using assms(1)
proof (cases rule: deviation_cases)
  case 1
  from assms(2) show ?thesis
    by (cases rule: period_cases)
       (simp_all add: 1 add_client_vs_global_engagement_gap_def deviation_metrics_def
          deviation_periods_def num_deviation_step_other num_deviation_step_hit has_col_num
          deviation_values_def Let_def cong: option.case_cong)
next
  case 2
  from assms(2) show ?thesis
    by (cases rule: period_cases)
       (simp_all add: 2 add_client_vs_global_engagement_gap_def deviation_metrics_def
          deviation_periods_def num_deviation_step_other num_deviation_step_hit has_col_num
          deviation_values_def Let_def cong: option.case_cong)
next
  case 3
  from assms(2) show ?thesis
    by (cases rule: period_cases)
       (simp_all add: 3 add_client_vs_global_engagement_gap_def deviation_metrics_def
          deviation_periods_def num_deviation_step_other num_deviation_step_hit has_col_num
          deviation_values_def Let_def cong: option.case_cong)
qed


lemma deviation_raw_never_infinite:
  "deviation_raw c g \<noteq> PosInf \<and> deviation_raw c g \<noteq> NegInf"
  by (simp add: deviation_raw_def np_divide_def replace_zero_nan_def nan_sub_def
        split: option.splits)

lemma deviation_cell_value:
  "replace_inf_nan (deviation_raw c g)
     = (case g of None \<Rightarrow> None
        | Some y \<Rightarrow> if y = 0 then None
                    else (case c of None \<Rightarrow> None | Some x \<Rightarrow> Some ((x - y) / y)))"
  by (simp add: deviation_raw_def np_divide_def replace_zero_nan_def nan_sub_def
        replace_inf_nan_def split: option.splits)

lemma deviation_values_present:
  assumes "mm \<in> set deviation_metrics" "p \<in> set deviation_periods"
    "num df (fst mm @ ''_rate_'' @ p) = Some c"
    "num df (''global_'' @ fst mm @ ''_rate_'' @ p) = Some g"
  shows "deviation_values df (mm, p) = map replace_inf_nan (map2 deviation_raw c g)"
  using assms(1)
proof (cases rule: deviation_cases)
  case 1
  from assms(2) show ?thesis using assms(3,4)
    by (cases rule: period_cases) (simp_all add: 1 deviation_values_def has_col_num)
next
  case 2
  from assms(2) show ?thesis using assms(3,4)
    by (cases rule: period_cases) (simp_all add: 2 deviation_values_def has_col_num)
next
  case 3
  from assms(2) show ?thesis using assms(3,4)
    by (cases rule: period_cases) (simp_all add: 3 deviation_values_def has_col_num)
qed

lemma deviation_values_absent:
  assumes "num df (fst mm @ ''_rate_'' @ p) = None
           \<or> num df (''global_'' @ fst mm @ ''_rate_'' @ p) = None"
  shows "deviation_values df (mm, p) = replicate (nrows df) None"
  using assms by (auto simp: deviation_values_def Let_def split: option.splits)


section \<open>Properties of the spam and delivery health features\<close>

lemma sum_list_unit_bounds:
  fixes xs :: "real list"
  assumes "\<forall>x \<in> set xs. 0 \<le> x \<and> x \<le> 1"
  shows "0 \<le> sum_list xs \<and> sum_list xs \<le> real (length xs)"
  using assms by (induction xs) auto

lemma somes_flags:
  assumes "\<forall>v \<in> set vs. v = None \<or> v = Some 0 \<or> v = Some (1::real)"
  shows "\<forall>x \<in> set (somes vs). 0 \<le> x \<and> x \<le> 1"
  using assms by (induction vs) (auto split: option.splits)

lemma nanmean_bounds:
  assumes "\<forall>v \<in> set vs. v = None \<or> v = Some 0 \<or> v = Some 1"
  shows "0 \<le> fillna0 (nanmean vs) \<and> fillna0 (nanmean vs) \<le> 1"
proof (cases "somes vs = []")
  case True
  then show ?thesis by (simp add: nanmean_def fillna0_def)
next
  case False
  then have pos: "0 < real (length (somes vs))" by simp
  from sum_list_unit_bounds [OF somes_flags [OF assms]]
  have "0 \<le> sum_list (somes vs)" "sum_list (somes vs) \<le> real (length (somes vs))" by simp_all
  then have "0 \<le> sum_list (somes vs) / real (length (somes vs))"
    and "sum_list (somes vs) / real (length (somes vs)) \<le> 1"
    using pos by (simp_all add: divide_le_eq)
  then show ?thesis using False by (simp add: nanmean_def fillna0_def)
qed

lemma rolling_rows_bound: "j \<in> set (rolling_rows ts w i) \<Longrightarrow> j < i"
  by (simp add: rolling_rows_def)

lemma rolling_mean_nth:
  assumes "rolling_mean ts w vs = Inr r" "i < length ts"
  shows "r ! i = nanmean (map (\<lambda>j. vs ! j) (rolling_rows ts w i))"
    and "length r = length ts"
  using assms by (auto simp: rolling_mean_def split: if_splits)

lemma rolling_mean_bounds:
  assumes "rolling_mean ts w vs = Inr r" "i < length ts" "length vs = length ts"
    "\<forall>v \<in> set vs. v = None \<or> v = Some 0 \<or> v = Some 1"
  shows "0 \<le> fillna0 (r ! i) \<and> fillna0 (r ! i) \<le> 1"
proof -
  have "\<forall>v \<in> set (map (\<lambda>j. vs ! j) (rolling_rows ts w i)). v = None \<or> v = Some 0 \<or> v = Some 1"
  proof
    fix v assume "v \<in> set (map (\<lambda>j. vs ! j) (rolling_rows ts w i))"
    then obtain j where j: "j \<in> set (rolling_rows ts w i)" "v = vs ! j" by auto
    have "j < i" using j(1) by (rule rolling_rows_bound)
    then have "j < length vs" using assms(2,3) by simp
    then have "vs ! j \<in> set vs" by (rule nth_mem)
    then show "v = None \<or> v = Some 0 \<or> v = Some 1"
      using assms(4) j(2) by simp
  qed
  from nanmean_bounds [OF this] show ?thesis
    using rolling_mean_nth(1) [OF assms(1,2)] by simp
qed

lemma spam_rate_step_fields:
  assumes "spam_rate_step dfi d mp = Inr d'"
  shows "nrows d' = nrows d" "sent_at d' = sent_at d" "client_id d' = client_id d"
  using assms by (auto simp: spam_rate_step_def split: sum.splits)

lemma spam_rate_step_num:
  assumes "spam_rate_step dfi d mp = Inr d'"
  shows "\<exists>vs r. num dfi (fst mp) = Some vs \<and> rolling_mean (sent_at dfi) (snd (snd mp)) vs = Inr r
          \<and> num d' = (num d)(fst mp @ ''_rate_'' @ fst (snd mp) := Some r)"
  using assms
  by (auto simp: spam_rate_step_def get_num_def assign_def split: sum.splits option.splits)

lemma spam_rate_fold:
  assumes "fold_err (spam_rate_step dfi) d ps = Inr out"
  shows "nrows out = nrows d \<and> sent_at out = sent_at d
       \<and> (\<forall>x. x \<notin> (\<lambda>mp. fst mp @ ''_rate_'' @ fst (snd mp)) ` set ps \<longrightarrow> num out x = num d x)
       \<and> (\<forall>mp \<in> set ps. inj_on (\<lambda>mp. fst mp @ ''_rate_'' @ fst (snd mp)) (set ps) \<longrightarrow>
            (\<exists>vs r. num dfi (fst mp) = Some vs
                \<and> rolling_mean (sent_at dfi) (snd (snd mp)) vs = Inr r
                \<and> num out (fst mp @ ''_rate_'' @ fst (snd mp)) = Some r))"
  using assms
proof (induction ps arbitrary: d)
  case Nil
  then show ?case by simp
next
  case (Cons q qs)
  let ?name = "\<lambda>mp::string \<times> string \<times> int. fst mp @ ''_rate_'' @ fst (snd mp)"
  from Cons.prems obtain d' where step: "spam_rate_step dfi d q = Inr d'"
    and rest: "fold_err (spam_rate_step dfi) d' qs = Inr out"
    by (auto split: sum.splits)
  note ih = Cons.IH [OF rest]
  from spam_rate_step_num [OF step] obtain vs r where q:
    "num dfi (fst q) = Some vs" "rolling_mean (sent_at dfi) (snd (snd q)) vs = Inr r"
    "num d' = (num d)(?name q := Some r)" by blast
  have f: "nrows out = nrows d \<and> sent_at out = sent_at d"
    using ih spam_rate_step_fields [OF step] by simp
  have other: "\<forall>x. x \<notin> ?name ` set (q # qs) \<longrightarrow> num out x = num d x"
    using ih q(3) by auto
  have hit: "\<exists>vs r. num dfi (fst mp) = Some vs
                \<and> rolling_mean (sent_at dfi) (snd (snd mp)) vs = Inr r
                \<and> num out (?name mp) = Some r"
    if mp: "mp \<in> set (q # qs)" and inj: "inj_on ?name (set (q # qs))" for mp
  proof (cases "mp \<in> set qs")
    case True
    moreover have "inj_on ?name (set qs)" using inj by (auto simp: inj_on_def)
    ultimately show ?thesis using ih by blast
  next
    case False
    then have eq: "mp = q" using mp by simp
    have "?name q \<notin> ?name ` set qs"
    proof
      assume "?name q \<in> ?name ` set qs"
      then obtain q' where "q' \<in> set qs" "?name q' = ?name q" by auto
      then have "q' = q" using inj by (auto simp: inj_on_def)
      then show False using False eq \<open>q' \<in> set qs\<close> by simp
    qed
    then have "num out (?name q) = num d' (?name q)" using ih by blast
    then show ?thesis using q eq by simp
  qed
  show ?case using f other hit by blast
qed


lemma spam_names_inj:
  "inj_on (\<lambda>mp::string \<times> string \<times> int. fst mp @ ''_rate_'' @ fst (snd mp))
     (set (List.product spam_metrics spam_periods))"
proof -
  have "distinct (map (\<lambda>mp::string \<times> string \<times> int. fst mp @ ''_rate_'' @ fst (snd mp))
          (List.product spam_metrics spam_periods))"
    by (simp add: spam_metrics_def spam_periods_def)
  then show ?thesis by (simp add: distinct_map)
qed

lemma spam_label_cases:
  assumes "label \<in> set (map fst spam_periods)"
  obtains "label = ''1d''" | "label = ''1w''" | "label = ''1m''"
  using assms unfolding spam_periods_def by fastforce

lemma spam_rate_cols:
  assumes "fold_err (spam_rate_step df) df (List.product spam_metrics spam_periods) = Inr df1"
    "m \<in> set spam_metrics" "label \<in> set (map fst spam_periods)"
  shows "\<exists>vs r w. num df m = Some vs \<and> rolling_mean (sent_at df) w vs = Inr r
           \<and> num df1 (m @ ''_rate_'' @ label) = Some r"
proof -
  from assms(3) obtain w where "(label, w) \<in> set spam_periods" by auto
  then have "(m, label, w) \<in> set (List.product spam_metrics spam_periods)"
    using assms(2) by simp
  with spam_rate_fold [OF assms(1)] spam_names_inj show ?thesis by fastforce
qed

lemma spam_composite_step_num:
  assumes "spam_composite_step d l = Inr d'"
  shows "\<exists>soft hard blocked unsub compl.
           num d (''is_soft_bounced_rate_'' @ l) = Some soft
         \<and> num d (''is_hard_bounced_rate_'' @ l) = Some hard
         \<and> num d (''is_blocked_rate_'' @ l) = Some blocked
         \<and> num d (''is_unsubscribed_rate_'' @ l) = Some unsub
         \<and> num d (''is_complained_rate_'' @ l) = Some compl
         \<and> nrows d' = nrows d
         \<and> num d' = ((num d)
              (''delivery_rate_'' @ l :=
                 Some (map (\<lambda>i. Some (1 - (fillna0 (soft ! i) + fillna0 (hard ! i)))) [0..<nrows d])))
              (''spam_risk_index_'' @ l :=
                 Some (map (\<lambda>i. Some (3 / 10 * fillna0 (soft ! i) + 4 / 10 * fillna0 (hard ! i)
                               + 2 / 10 * fillna0 (blocked ! i) + 5 / 100 * fillna0 (unsub ! i)
                               + 5 / 100 * fillna0 (compl ! i))) [0..<nrows d]))"
  using assms
  by (simp add: spam_composite_step_def get_num_def assign_def nrows_def
        split: sum.splits option.splits) fastforce


lemma spam_composite_cols:
  assumes "fold_err spam_composite_step d [''1d'', ''1w'', ''1m''] = Inr out"
    "label \<in> set (map fst spam_periods)"
  shows "\<exists>soft hard blocked unsub compl.
           num d (''is_soft_bounced_rate_'' @ label) = Some soft
         \<and> num d (''is_hard_bounced_rate_'' @ label) = Some hard
         \<and> num d (''is_blocked_rate_'' @ label) = Some blocked
         \<and> num d (''is_unsubscribed_rate_'' @ label) = Some unsub
         \<and> num d (''is_complained_rate_'' @ label) = Some compl
         \<and> num out (''delivery_rate_'' @ label)
             = Some (map (\<lambda>i. Some (1 - (fillna0 (soft ! i) + fillna0 (hard ! i)))) [0..<nrows d])
         \<and> num out (''spam_risk_index_'' @ label)
             = Some (map (\<lambda>i. Some (3 / 10 * fillna0 (soft ! i) + 4 / 10 * fillna0 (hard ! i)
                               + 2 / 10 * fillna0 (blocked ! i) + 5 / 100 * fillna0 (unsub ! i)
                               + 5 / 100 * fillna0 (compl ! i))) [0..<nrows d])"
proof -
  from assms(1) obtain d1 d2 where
    s1: "spam_composite_step d ''1d'' = Inr d1" and
    s2: "spam_composite_step d1 ''1w'' = Inr d2" and
    s3: "spam_composite_step d2 ''1m'' = Inr out"
    by (auto split: sum.splits)
  from spam_composite_step_num [OF s1] obtain a1 b1 c1 e1 f1 where k1:
    "num d ''is_soft_bounced_rate_1d'' = Some a1" "num d ''is_hard_bounced_rate_1d'' = Some b1"
    "num d ''is_blocked_rate_1d'' = Some c1" "num d ''is_unsubscribed_rate_1d'' = Some e1"
    "num d ''is_complained_rate_1d'' = Some f1" "nrows d1 = nrows d"
    "num d1 = ((num d)
       (''delivery_rate_1d'' :=
          Some (map (\<lambda>i. Some (1 - (fillna0 (a1 ! i) + fillna0 (b1 ! i)))) [0..<nrows d])))
       (''spam_risk_index_1d'' :=
          Some (map (\<lambda>i. Some (3 / 10 * fillna0 (a1 ! i) + 4 / 10 * fillna0 (b1 ! i)
                        + 2 / 10 * fillna0 (c1 ! i) + 5 / 100 * fillna0 (e1 ! i)
                        + 5 / 100 * fillna0 (f1 ! i))) [0..<nrows d]))"
    by auto
  from spam_composite_step_num [OF s2] obtain a2 b2 c2 e2 f2 where k2:
    "num d1 ''is_soft_bounced_rate_1w'' = Some a2" "num d1 ''is_hard_bounced_rate_1w'' = Some b2"
    "num d1 ''is_blocked_rate_1w'' = Some c2" "num d1 ''is_unsubscribed_rate_1w'' = Some e2"
    "num d1 ''is_complained_rate_1w'' = Some f2" "nrows d2 = nrows d1"
    "num d2 = ((num d1)
       (''delivery_rate_1w'' :=
          Some (map (\<lambda>i. Some (1 - (fillna0 (a2 ! i) + fillna0 (b2 ! i)))) [0..<nrows d1])))
       (''spam_risk_index_1w'' :=
          Some (map (\<lambda>i. Some (3 / 10 * fillna0 (a2 ! i) + 4 / 10 * fillna0 (b2 ! i)
                        + 2 / 10 * fillna0 (c2 ! i) + 5 / 100 * fillna0 (e2 ! i)
                        + 5 / 100 * fillna0 (f2 ! i))) [0..<nrows d1]))"
    by auto
  from spam_composite_step_num [OF s3] obtain a3 b3 c3 e3 f3 where k3:
    "num d2 ''is_soft_bounced_rate_1m'' = Some a3" "num d2 ''is_hard_bounced_rate_1m'' = Some b3"
    "num d2 ''is_blocked_rate_1m'' = Some c3" "num d2 ''is_unsubscribed_rate_1m'' = Some e3"
    "num d2 ''is_complained_rate_1m'' = Some f3" "nrows out = nrows d2"
    "num out = ((num d2)
       (''delivery_rate_1m'' :=
          Some (map (\<lambda>i. Some (1 - (fillna0 (a3 ! i) + fillna0 (b3 ! i)))) [0..<nrows d2])))
       (''spam_risk_index_1m'' :=
          Some (map (\<lambda>i. Some (3 / 10 * fillna0 (a3 ! i) + 4 / 10 * fillna0 (b3 ! i)
                        + 2 / 10 * fillna0 (c3 ! i) + 5 / 100 * fillna0 (e3 ! i)
                        + 5 / 100 * fillna0 (f3 ! i))) [0..<nrows d2]))"
    by auto
  from assms(2) show ?thesis
  proof (cases rule: spam_label_cases)
    case 1
    then show ?thesis using k1(1-5) by (simp add: k3(7) k2(7) k1(7))
  next
    case 2
    then show ?thesis using k2(1-5) by (simp add: k3(7) k2(7) k1(7) k1(6))
  next
    case 3
    then show ?thesis using k3(1-5) by (simp add: k3(7) k2(7) k1(7) k1(6) k2(6))
  qed
qed


lemma spam_metric_mem:
  "''is_soft_bounced'' \<in> set spam_metrics" "''is_hard_bounced'' \<in> set spam_metrics"
  "''is_blocked'' \<in> set spam_metrics" "''is_unsubscribed'' \<in> set spam_metrics"
  "''is_complained'' \<in> set spam_metrics"
  by (simp_all add: spam_metrics_def)


section \<open>Properties of the hourly bucket series\<close>

lemma fold_err_assign:
  assumes step: "\<And>d x d'. step d x = Inr d' \<Longrightarrow>
      \<exists>col. compute x = Inr col \<and> num d' = (num d)(name x := Some col)
            \<and> sent_at d' = sent_at d \<and> client_id d' = client_id d"
    and run: "fold_err step d ps = Inr out"
  shows "sent_at out = sent_at d \<and> client_id out = client_id d
       \<and> (\<forall>x. x \<notin> name ` set ps \<longrightarrow> num out x = num d x)
       \<and> (\<forall>p \<in> set ps. inj_on name (set ps) \<longrightarrow>
            (\<exists>col. compute p = Inr col \<and> num out (name p) = Some col))"
  using run
proof (induction ps arbitrary: d)
  case Nil
  then show ?case by simp
next
  case (Cons q qs)
  from Cons.prems obtain d' where s: "step d q = Inr d'"
    and rest: "fold_err step d' qs = Inr out"
    by (auto split: sum.splits)
  note ih = Cons.IH [OF rest]
  from step [OF s] obtain col where q: "compute q = Inr col" "num d' = (num d)(name q := Some col)"
    "sent_at d' = sent_at d" "client_id d' = client_id d" by blast
  have f: "sent_at out = sent_at d \<and> client_id out = client_id d" using ih q by simp
  have other: "\<forall>x. x \<notin> name ` set (q # qs) \<longrightarrow> num out x = num d x"
    using ih q(2) by auto
  have hit: "\<exists>col. compute p = Inr col \<and> num out (name p) = Some col"
    if p: "p \<in> set (q # qs)" and inj: "inj_on name (set (q # qs))" for p
  proof (cases "p \<in> set qs")
    case True
    moreover have "inj_on name (set qs)" using inj by (auto simp: inj_on_def)
    ultimately show ?thesis using ih by blast
  next
    case False
    then have eq: "p = q" using p by simp
    have "name q \<notin> name ` set qs"
    proof
      assume "name q \<in> name ` set qs"
      then obtain q' where q': "q' \<in> set qs" "name q' = name q" by auto
      then have "q' = q" using inj by (auto simp: inj_on_def)
      then show False using False eq q'(1) by simp
    qed
    then have "num out (name q) = num d' (name q)" using ih by blast
    then show ?thesis using q eq by simp
  qed
  show ?case using f other hit by blast
qed

subsection \<open>Buckets\<close>



lemma length_bucket_times [simp]: "length (bucket_times ts) = length (bucket_range ts)"
  by (simp add: bucket_times_def)

lemma length_engagement_series [simp]:
  "length (engagement_series ts vs) = length (bucket_range ts)"
  by (simp add: engagement_series_def resample_mean_def)






subsection \<open>The backward as-of join\<close>






subsection \<open>Rolling over the bucket series\<close>











section \<open>Properties of the global campaign performance features\<close>

lemma take_rows_fields [simp]:
  "sent_at (take_rows idx df) = map (\<lambda>i. sent_at df ! i) idx"
  "client_id (take_rows idx df) = map (\<lambda>i. client_id df ! i) idx"
  "nrows (take_rows idx df) = length idx"
  "num (take_rows idx df) c = map_option (\<lambda>col. map (\<lambda>i. col ! i) idx) (num df c)"
  "message_type (take_rows idx df) = map_option (\<lambda>col. map (\<lambda>i. col ! i) idx) (message_type df)"
  by (simp_all add: take_rows_def nrows_def)




lemma global_step_assign:
  assumes "global_step dfi d pm = Inr d'"
  shows "\<exists>col. global_rate_col dfi (snd pm) (snd (fst pm)) = Inr col
           \<and> num d' = (num d)(''global_'' @ snd pm @ ''_rate_'' @ fst (fst pm) := Some col)
           \<and> sent_at d' = sent_at d \<and> client_id d' = client_id d"
  using assms by (auto simp: global_step_def assign_def split: sum.splits)

lemma global_names_inj:
  "inj_on (\<lambda>pm::(string \<times> int) \<times> string. ''global_'' @ snd pm @ ''_rate_'' @ fst (fst pm))
     (set (List.product global_periods engagement_metrics))"
proof -
  have "distinct (map (\<lambda>pm::(string \<times> int) \<times> string. ''global_'' @ snd pm @ ''_rate_'' @ fst (fst pm))
          (List.product global_periods engagement_metrics))"
    by (simp add: global_periods_def engagement_metrics_def)
  then show ?thesis by (simp add: distinct_map)
qed

lemma global_rate_col_cases:
  assumes "global_rate_col dfi m w = Inr col"
  shows "\<exists>vs r. num dfi m = Some vs
           \<and> rolling_mean (bucket_times (sent_at dfi)) w (engagement_series (sent_at dfi) vs) = Inr r
           \<and> col = merge_asof_backward (sent_at dfi) (bucket_times (sent_at dfi)) r"
  using assms by (auto simp: global_rate_col_def get_num_def split: option.splits sum.splits)

lemma global_col:
  assumes "add_global_campaign_performance_features df = Inr out"
    and "m \<in> set engagement_metrics" and "(p, w) \<in> set global_periods"
  shows "\<exists>vs r. rolling_mean (bucket_times (sent_at out)) w (engagement_series (sent_at out) vs) = Inr r
           \<and> num out (''global_'' @ m @ ''_rate_'' @ p)
               = Some (merge_asof_backward (sent_at out) (bucket_times (sent_at out)) r)"
proof -
  from assms(1) obtain df1 where
    f: "fold_err fill_flag (sort_values_sent_at df) engagement_metrics = Inr df1" and
    g: "fold_err (global_step df1) df1 (List.product global_periods engagement_metrics) = Inr out"
    by (auto simp: add_global_campaign_performance_features_def split: sum.splits)
  note fa = fold_err_assign [where step = "global_step df1"
      and compute = "\<lambda>pm. global_rate_col df1 (snd pm) (snd (fst pm))"
      and name = "\<lambda>pm. ''global_'' @ snd pm @ ''_rate_'' @ fst (fst pm)",
      OF global_step_assign g]
  have s: "sent_at out = sent_at df1" using fa by simp
  have "((p, w), m) \<in> set (List.product global_periods engagement_metrics)"
    using assms(2,3) by simp
  with fa global_names_inj obtain col where
    c: "global_rate_col df1 m w = Inr col" "num out (''global_'' @ m @ ''_rate_'' @ p) = Some col"
    by fastforce
  from global_rate_col_cases [OF c(1)] c(2) s show ?thesis by auto
qed









section \<open>Rows through the pipeline\<close>

lemma foldl_preserves:
  assumes "\<And>d x. f (step d x) = f d"
  shows "f (foldl step d xs) = f d"
  by (induction xs arbitrary: d) (simp_all add: assms)


lemma assign_message_type [simp]: "message_type (assign df c vs) = message_type df"
  by (simp add: assign_def)

subsection \<open>Stages before the filter\<close>

lemma channel_gap_fields [simp]:
  "sent_at (channel_gap d ch) = sent_at d" "message_type (channel_gap d ch) = message_type d"
  "client_id (channel_gap d ch) = client_id d"
  by (simp_all add: channel_gap_def split: option.splits)

lemma temporal_fields [simp]:
  "sent_at (create_temporal_features df) = sent_at df"
  "message_type (create_temporal_features df) = message_type df"
  "client_id (create_temporal_features df) = client_id df"
  by (simp_all add: create_temporal_features_def Let_def foldl_preserves)

lemma rolling_feature_fields [simp]:
  "sent_at (rolling_feature dfi d cfg) = sent_at d"
  "message_type (rolling_feature dfi d cfg) = message_type d"
  "client_id (rolling_feature dfi d cfg) = client_id d"
  by (simp_all add: rolling_feature_def split: prod.splits option.splits)

lemma unique_campaigns_fields [simp]:
  "sent_at (unique_campaigns dfi d wp) = sent_at d"
  "message_type (unique_campaigns dfi d wp) = message_type d"
  "client_id (unique_campaigns dfi d wp) = client_id d"
  by (simp_all add: unique_campaigns_def split: option.splits)

lemma indicator_fields [simp]:
  "sent_at (campaign_type_indicators d) = sent_at d"
  "message_type (campaign_type_indicators d) = message_type d"
  "client_id (campaign_type_indicators d) = client_id d"
  "sent_at (campaign_position d) = sent_at d"
  "message_type (campaign_position d) = message_type d"
  "client_id (campaign_position d) = client_id d"
  by (simp_all add: campaign_type_indicators_def campaign_position_def split: option.splits)

lemma rolling_features_fields [simp]:
  "sent_at (create_rolling_features df) = sent_at df"
  "message_type (create_rolling_features df) = message_type df"
  "client_id (create_rolling_features df) = client_id df"
  by (simp_all add: create_rolling_features_def Let_def foldl_preserves)




subsection \<open>The message-type filter\<close>




subsection \<open>Stages after the filter\<close>

lemma engagement_fields [simp]:
  "sent_at (create_engagement_features a b df) = sent_at df"
  "client_id (create_engagement_features a b df) = client_id df"
  by (simp_all add: create_engagement_features_def)

lemma deviation_fields [simp]:
  "sent_at (add_client_vs_global_engagement_gap df) = sent_at df"
  "client_id (add_client_vs_global_engagement_gap df) = client_id df"
  by (simp_all add: add_client_vs_global_engagement_gap_def foldl_preserves)


lemma nrows_eq: "sent_at d' = sent_at d \<Longrightarrow> nrows d' = nrows d"
  by (simp add: nrows_def)




section \<open>Missing optional columns\<close>

subsection \<open>Engagement features of a missing metric\<close>

lemma lag_column_skip: "num d c = None \<Longrightarrow> lag_column d c = d"
  by (simp add: lag_column_def)

lemma rolling_rates_metric_skip:
  "c = m @ ''_prev'' \<Longrightarrow> \<not> has_col d c \<Longrightarrow> rolling_rates_metric dfi d m = d"
  by (simp add: rolling_rates_metric_def)

lemma lagged_skips:
  assumes "m \<in> set engagement_metrics" "num df m = None"
  shows "\<forall>s \<in> set engagement_suffixes.
           num (create_lagged_engagement_features df) (m @ s) = num df (m @ s)"
  using assms
  by (cases rule: engagement_metrics_cases)
     (simp_all add: engagement_suffixes_def create_lagged_engagement_features_def
        engagement_metrics_def num_lag_column_other lag_column_skip)

lemma rolling_skips:
  assumes "m \<in> set engagement_metrics" "num df m = None"
  shows "\<forall>s \<in> set engagement_suffixes.
           num (create_rolling_engagement_rates df) (m @ s) = num df (m @ s)"
  using assms
  by (cases rule: engagement_metrics_cases)
     (simp_all add: engagement_suffixes_def create_rolling_engagement_rates_def
        available_metrics_def engagement_metrics_def has_col_num num_rolling_rates_metric_other)

lemma smoothed_skips:
  assumes "m \<in> set engagement_metrics" "num df m = None"
  shows "\<forall>s \<in> set engagement_suffixes.
           num (create_bayesian_smoothed_rates a b df) (m @ s) = num df (m @ s)"
  using assms
  by (cases rule: engagement_metrics_cases)
     (simp_all add: engagement_suffixes_def create_bayesian_smoothed_rates_def
        available_metrics_def engagement_metrics_def has_col_num num_smoothed_metric_other)

lemma campaign_skips:
  assumes "m \<in> set engagement_metrics" "num df m = None"
  shows "\<forall>s \<in> set engagement_suffixes.
           num (create_campaign_quality_features df) (m @ s) = num df (m @ s)"
  using assms
  by (cases rule: engagement_metrics_cases)
     (simp_all add: engagement_suffixes_def create_campaign_quality_features_def
        available_metrics_def engagement_metrics_def has_col_num num_campaign_metric_other)

lemma gap_skips:
  assumes "m \<in> set engagement_metrics" "num df m = None"
  shows "\<forall>s \<in> set engagement_suffixes.
           num (create_expectation_gap_features df) (m @ s) = num df (m @ s)"
  using assms
  by (cases rule: engagement_metrics_cases)
     (simp_all add: engagement_suffixes_def create_expectation_gap_features_def
        available_metrics_def engagement_metrics_def has_col_num num_gap_metric_other)

section \<open>The claims\<close>

text \<open>
  Claim C3 (Bayesian smoothing, zero-history limit). The claim asks that a client's first event
  (no prior trials) receives exactly the metric's global mean rate with \<open>alpha = beta = 1\<close>.
  The code computes \<open>(0 + alpha * global) / (0 + alpha + beta)\<close> there, which is half the
  global rate. In the scenario frame the global open rate is \<open>2/3\<close> and the first event's
  smoothed rate is \<open>1/3\<close>. (The lemmas \<open>smoothed_first_event\<close>,
  \<open>bayesian_shrinkage_zero_trials\<close> and \<open>bayesian_shrinkage_converges\<close> give the general
  value at zero history and the \<open>O(1/N)\<close> bound of the claim's second half.)
\<close>

theorem smoothed_rate_zero_history_is_half_global:
  "nanmean [Some 1, Some 0, Some 1] = Some (2 / 3)
   \<and> cell (create_bayesian_smoothed_rates 1 1 scenario) ''is_opened_rate_prev_smooth'' 0
       = Some (Some (1 / 3))"
  by code_simp

text \<open>
  Claim C1 (no leakage). The claim asks that the value of every \<open>smooth\<close> and
  \<open>expect_gap\<close> column at an event is unchanged when the outcome flag of a later event of
  the same client is altered. The two scenario frames differ only in the outcome of the last
  event (index 2); the smoothed rate and the overall expectation gap at the first event
  (index 0) differ, because the global mean and the client's overall mean are taken over all
  rows.
\<close>

theorem smoothed_and_overall_gap_read_later_outcomes:
  "cell (create_engagement_features 1 1 scenario) ''is_opened_rate_prev_smooth'' 0 = Some (Some (1 / 3))
   \<and> cell (create_engagement_features 1 1 scenario_altered) ''is_opened_rate_prev_smooth'' 0 = Some (Some (1 / 6))
   \<and> cell (create_engagement_features 1 1 scenario) ''is_opened_expect_gap_overall'' 0 = Some (Some (1 / 3))
   \<and> cell (create_engagement_features 1 1 scenario_altered) ''is_opened_expect_gap_overall'' 0 = Some (Some (1 / 6))"
  by code_simp

text \<open>
  Claim C2 (per-client rolling engagement rate). As stated the claim fails: the code rolls over
  the lagged column \<open>{metric}_prev\<close>, not over the metric. In the scenario the 7-day window
  of the day-10 event holds the day-3 event only; the mean of the metric there is 0, but the
  code's \<open>is_opened_rate_1w\<close> is 1, the day-3 row's \<open>is_opened_prev\<close> (the day-0 outcome).
\<close>

theorem rate_1w_is_not_mean_of_metric_in_window:
  "cell (create_rolling_engagement_rates (create_lagged_engagement_features scenario)) ''is_opened_rate_1w'' 2
     = Some (Some 1)
   \<and> nanmean (map (\<lambda>j. [Some 1, Some 0, Some 1] ! j)
        (spec_window (client_id scenario) (sent_at scenario) (days 7) 2)) = Some 0"
  by code_simp

text \<open>
  Claim C2 as amended: for a frame ordered by client and, within a client, by strictly
  increasing \<open>sent_at\<close>, \<open>{metric}_prev\<close> at an event is the metric of the client's
  preceding event (null at the first), and \<open>{metric}_rate_1w\<close> (\<open>_1m\<close>) is the mean of
  the non-null \<open>{metric}_prev\<close> cells over that client's events with \<open>sent_at\<close> in
  \<open>[t - 7d, t)\<close> (\<open>[t - 30d, t)\<close>), null when there is none. In the scenario
  \<open>is_opened_prev\<close> at day 10 is 0 (false) and \<open>is_opened_rate_1w\<close> is 1.
\<close>

theorem rolling_rate_is_trailing_mean_of_prev:
  assumes "m \<in> set engagement_metrics" and "num df m = Some vs"
    and "length (client_id df) = nrows df"
    and "sorted (client_id df)"
    and "strict_groups (client_id df) (sent_at df)"
    and "i < nrows df"
  shows "cell (create_rolling_engagement_rates (create_lagged_engagement_features df)) (m @ ''_prev'') i
           = Some (case prior_rows (client_id df) i of [] \<Rightarrow> None | j # js \<Rightarrow> vs ! last (j # js))
       \<and> cell (create_rolling_engagement_rates (create_lagged_engagement_features df)) (m @ ''_rate_1w'') i
           = Some (nanmean (map (\<lambda>j. groupby_apply shift1 (client_id df) vs ! j)
                      (spec_window (client_id df) (sent_at df) (days 7) i)))
       \<and> cell (create_rolling_engagement_rates (create_lagged_engagement_features df)) (m @ ''_rate_1m'') i
           = Some (nanmean (map (\<lambda>j. groupby_apply shift1 (client_id df) vs ! j)
                      (spec_window (client_id df) (sent_at df) (days 30) i)))"
proof -
  let ?L = "create_lagged_engagement_features df"
  let ?ks = "client_id df" and ?ts = "sent_at df"
  let ?prev = "groupby_apply shift1 ?ks vs"
  have i: "i < length ?ks" using assms(3,6) by simp
  have prevL: "num ?L (m @ ''_prev'') = Some ?prev" by (rule lagged_prev [OF assms(1,2)])
  have mono: "monotonic_groups ?ks ?ts" by (rule strict_imp_monotonic [OF assms(5)])
  have "num (create_rolling_engagement_rates ?L) (m @ ''_prev'') = Some ?prev"
    using rolling_prev_keeps [OF assms(1)] prevL by simp
  then have c1: "cell (create_rolling_engagement_rates ?L) (m @ ''_prev'') i
      = Some (case prior_rows ?ks i of [] \<Rightarrow> None | j # js \<Rightarrow> vs ! last (j # js))"
    using groupby_shift_nth [OF i] by (simp add: cell_def)
  have vals: "rolling_rate_values ?L m w ! i = nanmean (map (\<lambda>j. ?prev ! j) (spec_window ?ks ?ts w i))" for w
    using rolling_rate_values_sorted [of ?L m ?prev i w] prevL assms(4) mono i
      window_rows_spec [OF assms(5) i] by simp
  have c2: "cell (create_rolling_engagement_rates ?L) (m @ ''_rate_1w'') i
      = Some (nanmean (map (\<lambda>j. ?prev ! j) (spec_window ?ks ?ts (days 7) i)))"
    using rolling_rates_1w [OF assms(1) lagged_has_col [OF assms(1,2)]] vals
    by (simp add: cell_def)
  have c3: "cell (create_rolling_engagement_rates ?L) (m @ ''_rate_1m'') i
      = Some (nanmean (map (\<lambda>j. ?prev ! j) (spec_window ?ks ?ts (days 30) i)))"
    using rolling_rates_1m [OF assms(1) lagged_has_col [OF assms(1,2)]] vals
    by (simp add: cell_def)
  show ?thesis using c1 c2 c3 by simp
qed

theorem rolling_rate_is_trailing_mean_of_prev_witness:
  "sorted (client_id scenario) \<and> strict_groups (client_id scenario) (sent_at scenario)
   \<and> cell (create_rolling_engagement_rates (create_lagged_engagement_features scenario)) ''is_opened_prev'' 2
       = Some (Some 0)
   \<and> cell (create_rolling_engagement_rates (create_lagged_engagement_features scenario)) ''is_opened_rate_1w'' 2
       = Some (Some 1)"
proof -
  have h1: "''is_opened'' \<in> set engagement_metrics" by (simp add: engagement_metrics_def)
  have h2: "num scenario ''is_opened'' = Some [Some 1, Some 0, Some 1]" by (simp add: scenario_def)
  have h3: "length (client_id scenario) = nrows scenario" by (simp add: scenario_def nrows_def)
  have h4: "sorted (client_id scenario)" by (simp add: scenario_def)
  have h5: "strict_groups (client_id scenario) (sent_at scenario)" by code_simp
  have h6: "2 < nrows scenario" by (simp add: scenario_def nrows_def)
  have e1: "(case prior_rows (client_id scenario) 2 of [] \<Rightarrow> None
             | j # js \<Rightarrow> [Some 1, Some 0, Some (1::real)] ! last (j # js)) = Some 0"
    by code_simp
  have e2: "nanmean (map (\<lambda>j. groupby_apply shift1 (client_id scenario) [Some 1, Some 0, Some 1] ! j)
                      (spec_window (client_id scenario) (sent_at scenario) (days 7) 2)) = Some 1"
    by code_simp
  show ?thesis
    using rolling_rate_is_trailing_mean_of_prev [OF h1 h2 h3 h4 h5 h6] h4 h5
    by (simp add: e1 e2)
qed




text \<open>
  Claim C5 (deviation zero-guard). \<open>add_client_vs_global_engagement_gap\<close> is a total
  function (it never raises). For each of the three metrics and both horizons: when the client
  and the global rate column are present, the deviation at row \<open>i\<close> is
  \<open>(client - global) / global\<close> where the global rate is non-null and non-zero (null when the
  client rate is null), and null where the global rate is zero or null; the quotient is never
  an infinity, even before the final replacement pass. When one of the two columns is absent
  the deviation column is filled with null.
\<close>

theorem deviation_zero_guard:
  assumes "(metric_col, metric_short) \<in> set deviation_metrics" and "period \<in> set deviation_periods"
  shows "(num df (metric_col @ ''_rate_'' @ period) = Some c
          \<and> num df (''global_'' @ metric_col @ ''_rate_'' @ period) = Some g
          \<and> i < length c \<and> i < length g \<longrightarrow>
            cell (add_client_vs_global_engagement_gap df) (metric_short @ ''_deviation_'' @ period) i
              = Some (case g ! i of None \<Rightarrow> None
                      | Some y \<Rightarrow> if y = 0 then None
                                  else (case c ! i of None \<Rightarrow> None | Some x \<Rightarrow> Some ((x - y) / y)))
          \<and> deviation_raw (c ! i) (g ! i) \<noteq> PosInf \<and> deviation_raw (c ! i) (g ! i) \<noteq> NegInf)
       \<and> (num df (metric_col @ ''_rate_'' @ period) = None
          \<or> num df (''global_'' @ metric_col @ ''_rate_'' @ period) = None \<longrightarrow>
            num (add_client_vs_global_engagement_gap df) (metric_short @ ''_deviation_'' @ period)
              = Some (replicate (nrows df) None))"
proof -
  let ?out = "add_client_vs_global_engagement_gap df"
  let ?mm = "(metric_col, metric_short)"
  have col: "num ?out (metric_short @ ''_deviation_'' @ period) = Some (deviation_values df (?mm, period))"
    using deviation_col [OF assms, of df] by simp
  have a: "cell ?out (metric_short @ ''_deviation_'' @ period) i
             = Some (case g ! i of None \<Rightarrow> None
                     | Some y \<Rightarrow> if y = 0 then None
                                 else (case c ! i of None \<Rightarrow> None | Some x \<Rightarrow> Some ((x - y) / y)))"
    if "num df (metric_col @ ''_rate_'' @ period) = Some c"
      "num df (''global_'' @ metric_col @ ''_rate_'' @ period) = Some g"
      "i < length c" "i < length g"
  proof -
    have "deviation_values df (?mm, period) = map replace_inf_nan (map2 deviation_raw c g)"
      using deviation_values_present [OF assms, of df c g] that(1,2) by simp
    then show ?thesis
      using col that(3,4) by (simp add: cell_def deviation_cell_value)
  qed
  have b: "num ?out (metric_short @ ''_deviation_'' @ period) = Some (replicate (nrows df) None)"
    if "num df (metric_col @ ''_rate_'' @ period) = None
        \<or> num df (''global_'' @ metric_col @ ''_rate_'' @ period) = None"
    using col deviation_values_absent [of df ?mm period] that by simp
  show ?thesis using a b deviation_raw_never_infinite by blast
qed

theorem deviation_zero_guard_witness:
  "cell (add_client_vs_global_engagement_gap dev_example) ''open_deviation_1w'' 0 = Some (Some 1)
   \<and> cell (add_client_vs_global_engagement_gap dev_example) ''open_deviation_1w'' 1 = Some None
   \<and> cell (add_client_vs_global_engagement_gap dev_example) ''open_deviation_1w'' 2 = Some None
   \<and> num (add_client_vs_global_engagement_gap dev_example) ''click_deviation_1m''
       = Some [None, None, None]"
proof -
  have h1: "(''is_opened'', ''open'') \<in> set deviation_metrics"
    and h1': "(''is_clicked'', ''click'') \<in> set deviation_metrics"
    by (simp_all add: deviation_metrics_def)
  have h2: "''1w'' \<in> set deviation_periods" and h2': "''1m'' \<in> set deviation_periods"
    by (simp_all add: deviation_periods_def)
  have c: "num dev_example (''is_opened'' @ ''_rate_'' @ ''1w'') = Some [Some (1 / 2), Some 1, None]"
    and g: "num dev_example (''global_'' @ ''is_opened'' @ ''_rate_'' @ ''1w'')
              = Some [Some (1 / 4), Some 0, Some (1 / 2)]"
    and n: "num dev_example (''is_clicked'' @ ''_rate_'' @ ''1m'') = None"
    and r: "nrows dev_example = 3"
    by (simp_all add: dev_example_def nrows_def)
  note t = deviation_zero_guard [OF h1 h2, of dev_example "[Some (1 / 2), Some 1, None]"
      "[Some (1 / 4), Some 0, Some (1 / 2)]"]
  show ?thesis
    using t [of 0] t [of 1] t [of 2]
      deviation_zero_guard [OF h1' h2', of dev_example "[]" "[]" 0] c g n r
    by (simp add: numeral_3_eq_3)
qed

text \<open>
  Claim C10 (bounds on the composite health indices). When \<open>create_spam_health_features\<close>
  returns and the cells of the five outcome flags are 0, 1 (or null), then for every row and
  every horizon label \<open>spam_risk_index\<close> is a non-null number in \<open>[0, 1]\<close> and
  \<open>delivery_rate\<close> a non-null number in \<open>[-1, 1]\<close>. At the first row every component rate
  is null and the composites are 0 and 1.
\<close>

theorem composite_health_indices_bounded:
  assumes "create_spam_health_features df = Inr out"
    and "\<forall>m \<in> set spam_metrics. \<forall>vs. num df m = Some vs \<longrightarrow>
           length vs = nrows df \<and> (\<forall>v \<in> set vs. v = None \<or> v = Some 0 \<or> v = Some 1)"
    and "label \<in> set (map fst spam_periods)"
    and "i < nrows df"
  shows "\<exists>x y. cell out (''spam_risk_index_'' @ label) i = Some (Some x) \<and> 0 \<le> x \<and> x \<le> 1
             \<and> cell out (''delivery_rate_'' @ label) i = Some (Some y) \<and> - 1 \<le> y \<and> y \<le> 1"
proof -
  from assms(1) obtain df1 where
    l1: "fold_err (spam_rate_step df) df (List.product spam_metrics spam_periods) = Inr df1" and
    l2: "fold_err spam_composite_step df1 [''1d'', ''1w'', ''1m''] = Inr out"
    by (auto simp: create_spam_health_features_def split: sum.splits)
  have n1: "nrows df1 = nrows df" using spam_rate_fold [OF l1] by simp
  have rate: "\<exists>r. num df1 (m @ ''_rate_'' @ label) = Some r \<and> 0 \<le> fillna0 (r ! i) \<and> fillna0 (r ! i) \<le> 1"
    if m: "m \<in> set spam_metrics" for m
  proof -
    from spam_rate_cols [OF l1 m assms(3)] obtain vs r w where
      v: "num df m = Some vs" "rolling_mean (sent_at df) w vs = Inr r"
         "num df1 (m @ ''_rate_'' @ label) = Some r" by blast
    have "length vs = length (sent_at df)" "\<forall>v \<in> set vs. v = None \<or> v = Some 0 \<or> v = Some 1"
      using assms(2) m v(1) by (simp_all add: nrows_def)
    with rolling_mean_bounds [OF v(2), of i] assms(4) v(3) show ?thesis
      by (simp add: nrows_def)
  qed
  from spam_composite_cols [OF l2 assms(3)] obtain soft hard blocked unsub compl where c:
    "num df1 (''is_soft_bounced_rate_'' @ label) = Some soft"
    "num df1 (''is_hard_bounced_rate_'' @ label) = Some hard"
    "num df1 (''is_blocked_rate_'' @ label) = Some blocked"
    "num df1 (''is_unsubscribed_rate_'' @ label) = Some unsub"
    "num df1 (''is_complained_rate_'' @ label) = Some compl"
    "num out (''delivery_rate_'' @ label)
       = Some (map (\<lambda>i. Some (1 - (fillna0 (soft ! i) + fillna0 (hard ! i)))) [0..<nrows df1])"
    "num out (''spam_risk_index_'' @ label)
       = Some (map (\<lambda>i. Some (3 / 10 * fillna0 (soft ! i) + 4 / 10 * fillna0 (hard ! i)
                        + 2 / 10 * fillna0 (blocked ! i) + 5 / 100 * fillna0 (unsub ! i)
                        + 5 / 100 * fillna0 (compl ! i))) [0..<nrows df1])"
    by blast
  have b: "0 \<le> fillna0 (soft ! i) \<and> fillna0 (soft ! i) \<le> 1"
    "0 \<le> fillna0 (hard ! i) \<and> fillna0 (hard ! i) \<le> 1"
    "0 \<le> fillna0 (blocked ! i) \<and> fillna0 (blocked ! i) \<le> 1"
    "0 \<le> fillna0 (unsub ! i) \<and> fillna0 (unsub ! i) \<le> 1"
    "0 \<le> fillna0 (compl ! i) \<and> fillna0 (compl ! i) \<le> 1"
    using rate [OF spam_metric_mem(1)] rate [OF spam_metric_mem(2)] rate [OF spam_metric_mem(3)]
      rate [OF spam_metric_mem(4)] rate [OF spam_metric_mem(5)] c(1-5)
    by simp_all
  have i1: "i < nrows df1" using n1 assms(4) by simp
  have "cell out (''spam_risk_index_'' @ label) i
          = Some (Some (3 / 10 * fillna0 (soft ! i) + 4 / 10 * fillna0 (hard ! i)
                        + 2 / 10 * fillna0 (blocked ! i) + 5 / 100 * fillna0 (unsub ! i)
                        + 5 / 100 * fillna0 (compl ! i)))"
    and "cell out (''delivery_rate_'' @ label) i
          = Some (Some (1 - (fillna0 (soft ! i) + fillna0 (hard ! i))))"
    using c(6,7) i1 by (simp_all add: cell_def)
  moreover have "0 \<le> 3 / 10 * fillna0 (soft ! i) + 4 / 10 * fillna0 (hard ! i)
                        + 2 / 10 * fillna0 (blocked ! i) + 5 / 100 * fillna0 (unsub ! i)
                        + 5 / 100 * fillna0 (compl ! i)"
    using b by simp
  moreover have "3 / 10 * fillna0 (soft ! i) + 4 / 10 * fillna0 (hard ! i)
                        + 2 / 10 * fillna0 (blocked ! i) + 5 / 100 * fillna0 (unsub ! i)
                        + 5 / 100 * fillna0 (compl ! i) \<le> 1"
    using b by linarith
  moreover have "- 1 \<le> 1 - (fillna0 (soft ! i) + fillna0 (hard ! i))"
    "1 - (fillna0 (soft ! i) + fillna0 (hard ! i)) \<le> 1"
    using b by linarith+
  ultimately show ?thesis by blast
qed

theorem composite_health_indices_bounded_witness:
  "(case create_spam_health_features spam_example of
      Inl e \<Rightarrow> False
    | Inr out \<Rightarrow>
        (\<exists>x y. cell out ''spam_risk_index_1d'' 1 = Some (Some x) \<and> 0 \<le> x \<and> x \<le> 1
             \<and> cell out ''delivery_rate_1d'' 1 = Some (Some y) \<and> - 1 \<le> y \<and> y \<le> 1))
   \<and> map_sum id (\<lambda>out. cell out ''spam_risk_index_1d'' 1) (create_spam_health_features spam_example)
       = Inr (Some (Some (11 / 20)))
   \<and> map_sum id (\<lambda>out. cell out ''is_soft_bounced_rate_1d'' 0) (create_spam_health_features spam_example)
       = Inr (Some None)
   \<and> map_sum id (\<lambda>out. cell out ''spam_risk_index_1d'' 0) (create_spam_health_features spam_example)
       = Inr (Some (Some 0))
   \<and> map_sum id (\<lambda>out. cell out ''delivery_rate_1d'' 0) (create_spam_health_features spam_example)
       = Inr (Some (Some 1))"
proof -
  have v: "map_sum id (\<lambda>out. cell out ''spam_risk_index_1d'' 1) (create_spam_health_features spam_example)
       = Inr (Some (Some (11 / 20)))
   \<and> map_sum id (\<lambda>out. cell out ''is_soft_bounced_rate_1d'' 0) (create_spam_health_features spam_example)
       = Inr (Some None)
   \<and> map_sum id (\<lambda>out. cell out ''spam_risk_index_1d'' 0) (create_spam_health_features spam_example)
       = Inr (Some (Some 0))
   \<and> map_sum id (\<lambda>out. cell out ''delivery_rate_1d'' 0) (create_spam_health_features spam_example)
       = Inr (Some (Some 1))"
    by code_simp
  have "\<not> isl (create_spam_health_features spam_example)" by code_simp
  then obtain out where out: "create_spam_health_features spam_example = Inr out"
    by (cases "create_spam_health_features spam_example") auto
  have flags: "\<forall>m \<in> set spam_metrics. \<forall>vs. num spam_example m = Some vs \<longrightarrow>
           length vs = nrows spam_example \<and> (\<forall>v \<in> set vs. v = None \<or> v = Some 0 \<or> v = Some 1)"
    by (simp add: spam_metrics_def spam_example_def nrows_def)
  have l: "''1d'' \<in> set (map fst spam_periods)" by (simp add: spam_periods_def)
  have i: "1 < nrows spam_example" by (simp add: spam_example_def nrows_def)
  from composite_health_indices_bounded [OF out flags l i] v show ?thesis
    by (simp add: out)
qed






end
